theory Spec2Isabelle
  imports Complex_Main "HOL-Library.AList" "HOL-Library.Multiset"
begin

section \<open>Python values\<close>

text \<open>
  A Python \<open>float\<close>. The three special values of IEEE 754 are constructors of their own,
  because the source produces and propagates them (\<open>pd.to_numeric(errors="coerce")\<close> yields
  NaN, \<open>fillna\<close> removes it, \<open>sum\<close> skips it, \<open>sort_values\<close> puts it last). A finite float is
  modelled by the rational number it denotes: the binary rounding error of an operation,
  overflow to infinity and the sign of zero are not modelled.
\<close>

datatype pyfloat = Fin rat | PInf | NInf | NaN

text \<open>
  A dynamically typed Python value as it occurs in a spreadsheet cell or in a field of a
  trade dictionary: a string, a float (a blank cell is the float NaN), or \<open>None\<close>.
\<close>

datatype pyval = PStr string | PFloat pyfloat | PNone

fun is_finite :: "pyfloat \<Rightarrow> bool" where
  "is_finite (Fin a) = True"
| "is_finite PInf = False"
| "is_finite NInf = False"
| "is_finite NaN = False"

text \<open>IEEE addition \<open>x + y\<close>.\<close>

fun fadd :: "pyfloat \<Rightarrow> pyfloat \<Rightarrow> pyfloat" where
  "fadd (Fin a) (Fin b) = Fin (a + b)"
| "fadd NaN y = NaN"
| "fadd x NaN = NaN"
| "fadd PInf NInf = NaN"
| "fadd NInf PInf = NaN"
| "fadd PInf y = PInf"
| "fadd x PInf = PInf"
| "fadd NInf y = NInf"
| "fadd x NInf = NInf"

fun fneg :: "pyfloat \<Rightarrow> pyfloat" where
  "fneg (Fin a) = Fin (- a)"
| "fneg PInf = NInf"
| "fneg NInf = PInf"
| "fneg NaN = NaN"

text \<open>IEEE subtraction \<open>x - y\<close>.\<close>

definition fsub :: "pyfloat \<Rightarrow> pyfloat \<Rightarrow> pyfloat" where
  "fsub x y = fadd x (fneg y)"

text \<open>An infinity times a finite factor: NaN for zero, otherwise the sign decides.\<close>

definition inf_times :: "bool \<Rightarrow> rat \<Rightarrow> pyfloat" where
  "inf_times positive a =
     (if a = 0 then NaN else if (0 < a) = positive then PInf else NInf)"

text \<open>IEEE multiplication \<open>x * y\<close>.\<close>

fun fmul :: "pyfloat \<Rightarrow> pyfloat \<Rightarrow> pyfloat" where
  "fmul (Fin a) (Fin b) = Fin (a * b)"
| "fmul NaN y = NaN"
| "fmul x NaN = NaN"
| "fmul PInf (Fin b) = inf_times True b"
| "fmul NInf (Fin b) = inf_times False b"
| "fmul (Fin a) PInf = inf_times True a"
| "fmul (Fin a) NInf = inf_times False a"
| "fmul PInf PInf = PInf"
| "fmul NInf NInf = PInf"
| "fmul PInf NInf = NInf"
| "fmul NInf PInf = NInf"

text \<open>IEEE comparison \<open>x <= y\<close>: false as soon as one side is NaN.\<close>

fun fle :: "pyfloat \<Rightarrow> pyfloat \<Rightarrow> bool" where
  "fle (Fin a) (Fin b) = (a \<le> b)"
| "fle NaN y = False"
| "fle x NaN = False"
| "fle NInf y = True"
| "fle x PInf = True"
| "fle PInf y = False"
| "fle x NInf = False"

text \<open>
  Python's \<open>round(x, ndigits)\<close> on a float: the special values are returned unchanged; a
  finite value goes to the nearest multiple of \<open>10 ** -ndigits\<close>, and a value exactly half
  way between two multiples goes to the even one (the builtin rounds the exact value of the
  float correctly, half to even).
\<close>

definition round_half_even :: "rat \<Rightarrow> int" where
  "round_half_even x =
     (let f = \<lfloor>x\<rfloor>; d = x - of_int f
      in if d < 1 / 2 then f
         else if 1 / 2 < d then f + 1
         else if even f then f else f + 1)"

fun py_round :: "pyfloat \<Rightarrow> nat \<Rightarrow> pyfloat" where
  "py_round (Fin x) n = Fin (of_int (round_half_even (x * 10 ^ n)) / 10 ^ n)"
| "py_round PInf n = PInf"
| "py_round NInf n = NInf"
| "py_round NaN n = NaN"

section \<open>The aggregator: \<open>calculate_token_pnl\<close>\<close>

text \<open>
  A trade dictionary as \<open>calculate_token_pnl\<close> reads it. \<open>realizedPnl\<close> and \<open>commission\<close> are
  the values after the source's \<open>float(...)\<close>; \<open>symbol\<close> and \<open>commissionAsset\<close> are used as
  they come (a dictionary key, and an operand of \<open>==\<close>).
\<close>

record trade =
  symbol :: pyval
  realizedPnl :: pyfloat
  commission :: pyfloat
  commissionAsset :: pyval

text \<open>The per-symbol accumulator \<open>data[sym]\<close>.\<close>

record acc =
  realized_pnl :: pyfloat
  bnb_fees :: pyfloat
  usdc_fees :: pyfloat
  trades :: int

text \<open>One row of the resulting table, and the table itself.\<close>

record row =
  Token :: pyval
  Realized_PnL :: pyfloat
  BNB_Fees :: pyfloat
  BNB_Fees_USDC :: pyfloat
  Direct_USDC_Fees :: pyfloat
  Total_Fees_USDC :: pyfloat
  Net_PnL :: pyfloat
  Trades :: int

type_synonym dataframe = "row list"

text \<open>
  What \<open>client.ticker_price(symbol=...)\<close> followed by \<open>float(ticker["price"])\<close> did: it gave a
  price, or raised \<open>ClientError\<close>, or raised something else (a server or transport error of
  the client library, a missing key), which \<open>get_price\<close> does not catch.
\<close>

datatype exn = ClientError | OtherException

type_synonym ticker = "exn + pyfloat"

text \<open>\<open>get_price\<close> of main.py: 0.0 on \<open>ClientError\<close>.\<close>

fun main_get_price :: "ticker \<Rightarrow> exn + pyfloat" where
  "main_get_price (Inr price) = Inr price"
| "main_get_price (Inl ClientError) = Inr (Fin 0)"
| "main_get_price (Inl e) = Inl e"

text \<open>\<open>get_price\<close> of main2.py: 1.0 on \<open>ClientError\<close>.\<close>

fun main2_get_price :: "ticker \<Rightarrow> exn + pyfloat" where
  "main2_get_price (Inr price) = Inr price"
| "main2_get_price (Inl ClientError) = Inr (Fin 1)"
| "main2_get_price (Inl e) = Inl e"

text \<open>
  The dictionary \<open>data\<close> keeps insertion order, which decides the order of the rows, so it is
  an association list: \<open>AList.update\<close> overwrites the value of a key in place and appends a
  new key at the end, as a Python \<open>dict\<close> does.
\<close>

type_synonym data = "(pyval \<times> acc) list"

definition new_acc :: acc where
  "new_acc = \<lparr>realized_pnl = Fin 0, bnb_fees = Fin 0, usdc_fees = Fin 0, trades = 0\<rparr>"

text \<open>
  The body of \<open>for trade in trades\<close>, the same text in both files: create the entry of the
  symbol if it is missing, add the realized PnL, count the trade, and add the commission
  to the BNB bucket, to the stable-coin bucket, or to none.
\<close>

definition accumulate :: "data \<Rightarrow> trade \<Rightarrow> data" where
  "accumulate d t =
     (let sym = symbol t;
          realized = realizedPnl t;
          commission = commission t;
          asset = commissionAsset t;
          a0 = (case map_of d sym of None \<Rightarrow> new_acc | Some a \<Rightarrow> a);
          a1 = a0\<lparr>realized_pnl := fadd (realized_pnl a0) realized\<rparr>;
          a2 = a1\<lparr>trades := trades a1 + 1\<rparr>;
          a3 = (if asset = PStr ''BNB'' then a2\<lparr>bnb_fees := fadd (bnb_fees a2) commission\<rparr>
                else if asset = PStr ''USDC'' \<or> asset = PStr ''USDT''
                then a2\<lparr>usdc_fees := fadd (usdc_fees a2) commission\<rparr>
                else a2)
      in AList.update sym a3 d)"

definition token_data :: "trade list \<Rightarrow> data" where
  "token_data ts = foldl accumulate [] ts"

text \<open>The body of \<open>for sym, vals in data.items()\<close>, the same text in both files.\<close>

definition make_row :: "pyfloat \<Rightarrow> pyval \<times> acc \<Rightarrow> row" where
  "make_row bnb_price kv =
     (let sym = fst kv; vals = snd kv;
          bnb_fees_usdc = fmul (bnb_fees vals) bnb_price;
          total_fees = fadd bnb_fees_usdc (usdc_fees vals);
          net_pnl = fsub (realized_pnl vals) total_fees
      in \<lparr>Token = sym,
          Realized_PnL = py_round (realized_pnl vals) 2,
          BNB_Fees = py_round (bnb_fees vals) 5,
          BNB_Fees_USDC = py_round bnb_fees_usdc 2,
          Direct_USDC_Fees = py_round (usdc_fees vals) 2,
          Total_Fees_USDC = py_round total_fees 2,
          Net_PnL = py_round net_pnl 2,
          Trades = trades vals\<rparr>)"

text \<open>
  \<open>Series.sum()\<close> of a float column: pandas skips NaN (\<open>skipna=True\<close>) and adds the rest,
  starting from 0.
\<close>

definition pd_sum :: "pyfloat list \<Rightarrow> pyfloat" where
  "pd_sum xs = foldl fadd (Fin 0) (filter (\<lambda>x. x \<noteq> NaN) xs)"

text \<open>\<open>calculate_token_pnl\<close> of main.py.\<close>

definition main_total :: "dataframe \<Rightarrow> row" where
  "main_total df =
     \<lparr>Token = PStr ''TOTAL'',
      Realized_PnL = pd_sum (map Realized_PnL df),
      BNB_Fees = pd_sum (map BNB_Fees df),
      BNB_Fees_USDC = pd_sum (map BNB_Fees_USDC df),
      Direct_USDC_Fees = pd_sum (map Direct_USDC_Fees df),
      Total_Fees_USDC = pd_sum (map Total_Fees_USDC df),
      Net_PnL = pd_sum (map Net_PnL df),
      Trades = sum_list (map Trades df)\<rparr>"

definition main_calculate_token_pnl :: "ticker \<Rightarrow> trade list \<Rightarrow> exn + dataframe" where
  "main_calculate_token_pnl tk ts =
     (if ts = [] then Inr []
      else case main_get_price tk of
             Inl e \<Rightarrow> Inl e
           | Inr bnb_price \<Rightarrow>
               (let rows = map (make_row bnb_price) (token_data ts);
                    df = rows
                in if df \<noteq> [] then Inr (df @ [main_total df]) else Inr df))"

text \<open>
  \<open>df.sort_values("Net PnL", ascending=False)\<close>. pandas sets the rows whose key is NaN aside
  and puts them last in their original order; it reverses the other rows, sorts them
  ascending by key, and reverses the result. The ascending sort is modelled by the stable
  insertion sort that the default \<open>kind="quicksort"\<close> of numpy runs on short arrays; on
  long arrays numpy's sort need not be stable, so the order among equal keys is the one
  part of this definition that the library does not promise.
\<close>

fun insort_by :: "('a \<Rightarrow> pyfloat) \<Rightarrow> 'a \<Rightarrow> 'a list \<Rightarrow> 'a list" where
  "insort_by k x [] = [x]"
| "insort_by k x (y # ys) = (if fle (k x) (k y) then x # y # ys else y # insort_by k x ys)"

definition argsort_asc :: "('a \<Rightarrow> pyfloat) \<Rightarrow> 'a list \<Rightarrow> 'a list" where
  "argsort_asc k xs = foldr (insort_by k) xs []"

definition sort_values_desc :: "('a \<Rightarrow> pyfloat) \<Rightarrow> 'a list \<Rightarrow> 'a list" where
  "sort_values_desc k df =
     (let non_nans = filter (\<lambda>r. k r \<noteq> NaN) df;
          nans = filter (\<lambda>r. k r = NaN) df
      in rev (argsort_asc k (rev non_nans)) @ nans)"

text \<open>\<open>calculate_token_pnl\<close> of main2.py.\<close>

definition main2_total :: "dataframe \<Rightarrow> row" where
  "main2_total df =
     \<lparr>Token = PStr ''TOTAL'',
      Realized_PnL = py_round (pd_sum (map Realized_PnL df)) 2,
      BNB_Fees = py_round (pd_sum (map BNB_Fees df)) 5,
      BNB_Fees_USDC = py_round (pd_sum (map BNB_Fees_USDC df)) 2,
      Direct_USDC_Fees = py_round (pd_sum (map Direct_USDC_Fees df)) 2,
      Total_Fees_USDC = py_round (pd_sum (map Total_Fees_USDC df)) 2,
      Net_PnL = py_round (pd_sum (map Net_PnL df)) 2,
      Trades = sum_list (map Trades df)\<rparr>"

definition main2_calculate_token_pnl :: "ticker \<Rightarrow> trade list \<Rightarrow> exn + dataframe" where
  "main2_calculate_token_pnl tk ts =
     (if ts = [] then Inr []
      else case main2_get_price tk of
             Inl e \<Rightarrow> Inl e
           | Inr p \<Rightarrow>
               (let bnb_price = (if p = Fin 0 then Fin 600 else p);
                    rows = map (make_row bnb_price) (token_data ts);
                    df = rows
                in if df \<noteq> []
                   then (let df' = sort_values_desc Net_PnL df
                         in Inr (df' @ [main2_total df']))
                   else Inr df))"

section \<open>The file ingestion: \<open>get_trades_from_file\<close>\<close>

text \<open>
  \<open>pd.to_numeric(errors="coerce")\<close> on one string, as the parser of pandas reads it: white
  space, an optional sign, digits with an optional decimal point (at least one digit), an
  optional exponent, white space; or one of the spellings of infinity, in any case.
  Everything else is coerced to NaN. The value of a number is the exact decimal that the
  text denotes: the rounding to the nearest double and the overflow of a large exponent
  to infinity are not modelled.
\<close>

definition is_digit :: "char \<Rightarrow> bool" where
  "is_digit c = (48 \<le> (of_char c :: int) \<and> (of_char c :: int) \<le> 57)"

definition is_space :: "char \<Rightarrow> bool" where
  "is_space c = ((of_char c :: int) = 32 \<or> (9 \<le> (of_char c :: int) \<and> (of_char c :: int) \<le> 13))"

definition digits_val :: "string \<Rightarrow> int" where
  "digits_val ds = foldl (\<lambda>a c. 10 * a + (of_char c - 48)) 0 ds"

definition to_lower :: "char \<Rightarrow> char" where
  "to_lower c = (if 65 \<le> (of_char c :: int) \<and> (of_char c :: int) \<le> 90
                 then char_of (of_char c + 32 :: int) else c)"

definition parse_sign :: "string \<Rightarrow> bool \<times> string" where
  "parse_sign s =
     (case s of
        [] \<Rightarrow> (False, [])
      | c # r \<Rightarrow> if c = CHR ''-'' then (True, r) else if c = CHR ''+'' then (False, r) else (False, s))"

definition parse_exponent :: "string \<Rightarrow> (int \<times> string) option" where
  "parse_exponent s =
     (case s of
        [] \<Rightarrow> Some (0, [])
      | c # r \<Rightarrow>
          if c = CHR ''e'' \<or> c = CHR ''E''
          then (let (neg, r1) = parse_sign r;
                    ds = takeWhile is_digit r1
                in if ds = [] then None
                   else Some ((if neg then - digits_val ds else digits_val ds),
                              dropWhile is_digit r1))
          else Some (0, s))"

definition pow10 :: "int \<Rightarrow> rat" where
  "pow10 e = (if 0 \<le> e then 10 ^ nat e else 1 / 10 ^ nat (- e))"

definition parse_decimal :: "string \<Rightarrow> rat option" where
  "parse_decimal s =
     (let (neg, s2) = parse_sign (dropWhile is_space s);
          ip = takeWhile is_digit s2;
          s3 = dropWhile is_digit s2;
          (fp, s4) = (case s3 of
                        [] \<Rightarrow> ([], [])
                      | c # r \<Rightarrow> if c = CHR ''.''
                                 then (takeWhile is_digit r, dropWhile is_digit r)
                                 else ([], s3))
      in if ip = [] \<and> fp = [] then None
         else (case parse_exponent s4 of
                 None \<Rightarrow> None
               | Some (e, s5) \<Rightarrow>
                   if dropWhile is_space s5 = []
                   then (let m = of_int (digits_val (ip @ fp)) / 10 ^ length fp * pow10 e
                         in Some (if neg then - m else m))
                   else None))"

definition to_numeric :: "string \<Rightarrow> pyfloat" where
  "to_numeric s =
     (case parse_decimal s of
        Some r \<Rightarrow> Fin r
      | None \<Rightarrow>
          (let l = map to_lower s
           in if l = ''inf'' \<or> l = ''+inf'' \<or> l = ''infinity'' \<or> l = ''+infinity'' then PInf
              else if l = ''-inf'' \<or> l = ''-infinity'' then NInf
              else NaN))"

text \<open>
  \<open>Series.astype(str)\<close> on one cell: a string stays, \<open>None\<close> becomes the text None, a
  float becomes its \<open>repr\<close>, which is nan, inf or -inf for the special values. The \<open>repr\<close>
  of a finite float is a parameter of the model.
\<close>

fun astype_str :: "(rat \<Rightarrow> string) \<Rightarrow> pyval \<Rightarrow> string" where
  "astype_str repr (PStr s) = s"
| "astype_str repr PNone = ''None''"
| "astype_str repr (PFloat (Fin r)) = repr r"
| "astype_str repr (PFloat NaN) = ''nan''"
| "astype_str repr (PFloat PInf) = ''inf''"
| "astype_str repr (PFloat NInf) = ''-inf''"

text \<open>\<open>.str.lstrip("'")\<close>: every leading apostrophe goes.\<close>

definition lstrip_apostrophe :: "string \<Rightarrow> string" where
  "lstrip_apostrophe s = dropWhile (\<lambda>c. c = CHR 0x27) s"

text \<open>\<open>.str.replace(",", "")\<close>.\<close>

definition remove_commas :: "string \<Rightarrow> string" where
  "remove_commas s = filter (\<lambda>c. c \<noteq> CHR '','') s"

text \<open>\<open>.fillna(0)\<close> on one value.\<close>

definition fillna_zero :: "pyfloat \<Rightarrow> pyfloat" where
  "fillna_zero x = (if x = NaN then Fin 0 else x)"

text \<open>\<open>float(x or 0)\<close> for a float \<open>x\<close>: zero is falsy, NaN and the infinities are truthy.\<close>

definition float_or_zero :: "pyfloat \<Rightarrow> pyfloat" where
  "float_or_zero x = (if x = Fin 0 then Fin 0 else x)"

text \<open>
  The normalisation of one cell of a numeric column in main.py:
  \<open>astype(str)\<close>, \<open>str.lstrip("'")\<close>, \<open>replace("", "0")\<close>, \<open>pd.to_numeric(errors="coerce")\<close>.
\<close>

definition main_normalize :: "(rat \<Rightarrow> string) \<Rightarrow> pyval \<Rightarrow> pyfloat" where
  "main_normalize repr v =
     (let s0 = astype_str repr v;
          s1 = lstrip_apostrophe s0;
          s2 = (if s1 = [] then ''0'' else s1)
      in to_numeric s2)"

text \<open>
  The normalisation of one cell of a numeric column in main2.py: \<open>astype(str)\<close>,
  \<open>str.lstrip("'")\<close>, \<open>str.replace(",", "")\<close>, \<open>replace(["", "nan", "None"], "0")\<close>,
  \<open>pd.to_numeric(errors="coerce")\<close>, \<open>fillna(0)\<close>.
\<close>

definition main2_normalize :: "(rat \<Rightarrow> string) \<Rightarrow> pyval \<Rightarrow> pyfloat" where
  "main2_normalize repr v =
     (let s0 = astype_str repr v;
          s1 = lstrip_apostrophe s0;
          s2 = remove_commas s1;
          s3 = (if s2 = [] \<or> s2 = ''nan'' \<or> s2 = ''None'' then ''0'' else s2)
      in fillna_zero (to_numeric s3))"

text \<open>
  A \<open>datetime\<close>: the wall clock in microseconds, and the offset of its time zone from UTC
  when it has one. \<open>astimezone(timezone.utc).replace(tzinfo=None)\<close> gives the wall clock
  of the same instant in UTC, without a time zone.
\<close>

record py_datetime =
  wall_clock :: int
  tzinfo :: "int option"

definition to_naive_utc :: "py_datetime \<Rightarrow> py_datetime" where
  "to_naive_utc dt =
     (case tzinfo dt of
        None \<Rightarrow> dt
      | Some offset \<Rightarrow> \<lparr>wall_clock = wall_clock dt - offset, tzinfo = None\<rparr>)"

text \<open>
  The frame that \<open>pd.read_excel(path, parse_dates=["Date(UTC)"])\<close> returns: the names of its
  columns, and per row the cells that \<open>get_trades_from_file\<close> reads. The date is a wall
  clock in microseconds, or \<open>None\<close> for \<open>NaT\<close>. The columns Price, Quantity and Amount are
  normalised by the source and not read afterwards, so the rows do not carry them; whether
  they exist is in \<open>columns\<close>. A field of a column that does not exist is not read.
\<close>

record xl_row =
  Date_UTC :: "int option"
  Symbol :: pyval
  Realized_Profit :: pyval
  Fee :: pyval
  Fee_Coin :: pyval

record excel_frame =
  columns :: "string list"
  records :: "xl_row list"

text \<open>
  What reading the file did: it gave a frame, or raised. \<open>KeyError\<close> is what indexing a
  frame or a row by a column that does not exist raises.
\<close>

datatype read_exn = ReadError | KeyError

definition num_cols :: "string list" where
  "num_cols = [''Price'', ''Quantity'', ''Amount'', ''Fee'', ''Realized Profit'']"

definition required_cols :: "string list" where
  "required_cols = [''Date(UTC)'', ''Symbol'', ''Realized Profit'', ''Fee'']"

text \<open>
  \<open>get_trades_from_file\<close> of main.py. Nothing is caught: a failed read and a missing column
  raise. The normalised columns are read by the row loop, so the model normalises the cell
  where the loop reads it. The rows are filtered by date before the loop.
\<close>

definition main_get_trades_from_file ::
    "(rat \<Rightarrow> string) \<Rightarrow> py_datetime \<Rightarrow> read_exn + excel_frame \<Rightarrow> read_exn + trade list" where
  "main_get_trades_from_file repr start_datetime rd =
     (let start_datetime = (if tzinfo start_datetime \<noteq> None then to_naive_utc start_datetime
                            else start_datetime)
      in case rd of
           Inl e \<Rightarrow> Inl e
         | Inr df \<Rightarrow>
             if \<not> list_all (\<lambda>col. col \<in> set (columns df)) num_cols then Inl KeyError
             else
               (let df' = filter (\<lambda>row. case Date_UTC row of
                                          None \<Rightarrow> False
                                        | Some d \<Rightarrow> wall_clock start_datetime \<le> d) (records df)
                in if df' \<noteq> [] \<and>
                      (''Symbol'' \<notin> set (columns df) \<or> ''Fee Coin'' \<notin> set (columns df))
                   then Inl KeyError
                   else Inr (map (\<lambda>row.
                          \<lparr>symbol = Symbol row,
                           realizedPnl = float_or_zero (main_normalize repr (Realized_Profit row)),
                           commission = float_or_zero (main_normalize repr (Fee row)),
                           commissionAsset = Fee_Coin row\<rparr>) df')))"

text \<open>
  \<open>get_trades_from_file\<close> of main2.py. \<open>file_path\<close> is the result of \<open>find_excel_file\<close>, the
  empty string when no file was found. A failed read and a missing required column give
  the empty list. The date filter is commented out in the source, so \<open>start_datetime\<close> is
  normalised and then not used.
\<close>

definition main2_get_trades_from_file ::
    "(rat \<Rightarrow> string) \<Rightarrow> py_datetime \<Rightarrow> string \<Rightarrow> read_exn + excel_frame \<Rightarrow> trade list" where
  "main2_get_trades_from_file repr start_datetime file_path rd =
     (let start_datetime = (if tzinfo start_datetime \<noteq> None then to_naive_utc start_datetime
                            else start_datetime)
      in if file_path = [] then []
         else case rd of
                Inl e \<Rightarrow> []
              | Inr df \<Rightarrow>
                  (let missing_cols = filter (\<lambda>col. col \<notin> set (columns df)) required_cols
                   in if missing_cols \<noteq> [] then []
                      else if records df = [] then []
                      else map (\<lambda>row.
                             \<lparr>symbol = Symbol row,
                              realizedPnl = float_or_zero (main2_normalize repr (Realized_Profit row)),
                              commission = float_or_zero (main2_normalize repr (Fee row)),
                              commissionAsset = (if ''Fee Coin'' \<in> set (columns df)
                                                 then Fee_Coin row else PStr ''USDC'')\<rparr>)
                             (records df)))"

section \<open>Predicates for stating the properties\<close>

text \<open>
  The sum that a Python loop \<open>s = 0.0; for x in xs: s += x\<close> computes.
\<close>

definition fsum :: "pyfloat list \<Rightarrow> pyfloat" where
  "fsum xs = foldl fadd (Fin 0) xs"

text \<open>
  Every numeric field of the TOTAL row of main.py is the \<open>Series.sum()\<close> of its column over
  the rows; the trade count is the integer sum.
\<close>

definition column_sums :: "dataframe \<Rightarrow> row \<Rightarrow> bool" where
  "column_sums rows tot =
     (Realized_PnL tot = pd_sum (map Realized_PnL rows) \<and>
      BNB_Fees tot = pd_sum (map BNB_Fees rows) \<and>
      BNB_Fees_USDC tot = pd_sum (map BNB_Fees_USDC rows) \<and>
      Direct_USDC_Fees tot = pd_sum (map Direct_USDC_Fees rows) \<and>
      Total_Fees_USDC tot = pd_sum (map Total_Fees_USDC rows) \<and>
      Net_PnL tot = pd_sum (map Net_PnL rows) \<and>
      Trades tot = sum_list (map Trades rows))"

text \<open>
  Every numeric field of the TOTAL row of main2.py is the \<open>Series.sum()\<close> of its column over
  the rows, rounded once more.
\<close>

definition rounded_column_sums :: "dataframe \<Rightarrow> row \<Rightarrow> bool" where
  "rounded_column_sums rows tot =
     (Realized_PnL tot = py_round (pd_sum (map Realized_PnL rows)) 2 \<and>
      BNB_Fees tot = py_round (pd_sum (map BNB_Fees rows)) 5 \<and>
      BNB_Fees_USDC tot = py_round (pd_sum (map BNB_Fees_USDC rows)) 2 \<and>
      Direct_USDC_Fees tot = py_round (pd_sum (map Direct_USDC_Fees rows)) 2 \<and>
      Total_Fees_USDC tot = py_round (pd_sum (map Total_Fees_USDC rows)) 2 \<and>
      Net_PnL tot = py_round (pd_sum (map Net_PnL rows)) 2 \<and>
      Trades tot = sum_list (map Trades rows))"

text \<open>The number of rows of a table whose \<open>Token\<close> is the string TOTAL.\<close>

definition count_total :: "dataframe \<Rightarrow> nat" where
  "count_total df = length (filter (\<lambda>r. Token r = PStr ''TOTAL'') df)"

text \<open>
  The order of the rows as the specification words it: by net PnL descending, and by
  symbol ascending among equal net PnL. Python compares two strings lexicographically by
  code point.
\<close>

definition symbol_less :: "pyval \<Rightarrow> pyval \<Rightarrow> bool" where
  "symbol_less a b =
     (case (a, b) of
        (PStr s, PStr t) \<Rightarrow> lexordp (<) (map of_char s :: nat list) (map of_char t)
      | _ \<Rightarrow> False)"

definition claimed_before :: "row \<Rightarrow> row \<Rightarrow> bool" where
  "claimed_before a b =
     ((fle (Net_PnL b) (Net_PnL a) \<and> Net_PnL a \<noteq> Net_PnL b) \<or>
      (Net_PnL a = Net_PnL b \<and> symbol_less (Token a) (Token b)))"

text \<open>
  The order that \<open>sort_values("Net PnL", ascending=False)\<close> establishes: a row stands before
  another when the other's net PnL is NaN or not greater.
\<close>

definition net_desc :: "row \<Rightarrow> row \<Rightarrow> bool" where
  "net_desc a b = (Net_PnL b = NaN \<or> fle (Net_PnL b) (Net_PnL a))"

text \<open>
  Rounding to \<open>n\<close> decimal places as a relation between the value and the result: the result
  is a multiple of \<open>10 ** -n\<close>, at most half a unit of the last place away from the value,
  and when it is exactly half a unit away it is the even multiple. NaN and the infinities
  stay as they are.
\<close>

definition rounds_to :: "pyfloat \<Rightarrow> nat \<Rightarrow> pyfloat \<Rightarrow> bool" where
  "rounds_to x n y =
     (case x of
        Fin a \<Rightarrow>
          (case y of
             Fin b \<Rightarrow>
               (let k = \<lfloor>b * 10 ^ n\<rfloor>; e = \<bar>a * 10 ^ n - of_int k\<bar>
                in of_int k = b * 10 ^ n \<and> e \<le> 1 / 2 \<and> (e = 1 / 2 \<longrightarrow> even k))
           | _ \<Rightarrow> False)
      | _ \<Rightarrow> y = x)"

text \<open>
  Rounding half away from zero, the rule the specification names: \<open>0.125\<close> goes to
  \<open>0.13\<close> and \<open>-0.125\<close> to \<open>-0.13\<close>.
\<close>

definition round_half_away :: "rat \<Rightarrow> nat \<Rightarrow> rat" where
  "round_half_away x n = of_int ((if 0 \<le> x then 1 else - 1) * \<lfloor>\<bar>x\<bar> * 10 ^ n + 1 / 2\<rfloor>) / 10 ^ n"

text \<open>A row shows the values of an accumulator: each derived value rounded.\<close>

definition rounded_row :: "pyfloat \<Rightarrow> acc \<Rightarrow> row \<Rightarrow> bool" where
  "rounded_row price a r =
     (rounds_to (realized_pnl a) 2 (Realized_PnL r) \<and>
      rounds_to (bnb_fees a) 5 (BNB_Fees r) \<and>
      rounds_to (fmul (bnb_fees a) price) 2 (BNB_Fees_USDC r) \<and>
      rounds_to (usdc_fees a) 2 (Direct_USDC_Fees r) \<and>
      rounds_to (fadd (fmul (bnb_fees a) price) (usdc_fees a)) 2 (Total_Fees_USDC r) \<and>
      rounds_to (fsub (realized_pnl a) (fadd (fmul (bnb_fees a) price) (usdc_fees a))) 2
        (Net_PnL r) \<and>
      Trades r = trades a)"

text \<open>The invariant of a trade as the specification words it.\<close>

definition trade_invariant :: "trade \<Rightarrow> bool" where
  "trade_invariant t =
     ((case symbol t of PStr s \<Rightarrow> s \<noteq> [] | _ \<Rightarrow> False) \<and> is_finite (commission t))"

section \<open>Example inputs\<close>

text \<open>
  The scenario of the specification: two BTCUSDC trades and one ETHUSDC trade, with the
  BNB price 600.
\<close>

definition scenario_trades :: "trade list" where
  "scenario_trades =
     [\<lparr>symbol = PStr ''BTCUSDC'', realizedPnl = Fin 100, commission = Fin (1 / 100),
       commissionAsset = PStr ''BNB''\<rparr>,
      \<lparr>symbol = PStr ''BTCUSDC'', realizedPnl = Fin (- 20), commission = Fin (1 / 2),
       commissionAsset = PStr ''USDC''\<rparr>,
      \<lparr>symbol = PStr ''ETHUSDC'', realizedPnl = Fin 50, commission = Fin (2 / 100),
       commissionAsset = PStr ''BNB''\<rparr>]"

text \<open>
  Two symbols with a net PnL of 0.004 each: both rows show 0.00, while the sum of the
  unrounded values, 0.008, would round to 0.01.
\<close>

definition half_cent_trades :: "trade list" where
  "half_cent_trades =
     [\<lparr>symbol = PStr ''BTCUSDC'', realizedPnl = Fin (4 / 1000), commission = Fin 0,
       commissionAsset = PStr ''USDC''\<rparr>,
      \<lparr>symbol = PStr ''ETHUSDC'', realizedPnl = Fin (4 / 1000), commission = Fin 0,
       commissionAsset = PStr ''USDC''\<rparr>]"

text \<open>A single trade whose symbol is the string TOTAL.\<close>

definition total_named_trade :: trade where
  "total_named_trade =
     \<lparr>symbol = PStr ''TOTAL'', realizedPnl = Fin 1, commission = Fin 0,
      commissionAsset = PStr ''USDC''\<rparr>"

text \<open>Two trades of equal net PnL, the symbol B traded before the symbol A.\<close>

definition tie_trades :: "trade list" where
  "tie_trades =
     [\<lparr>symbol = PStr ''B'', realizedPnl = Fin 1, commission = Fin 0,
       commissionAsset = PStr ''USDC''\<rparr>,
      \<lparr>symbol = PStr ''A'', realizedPnl = Fin 1, commission = Fin 0,
       commissionAsset = PStr ''USDC''\<rparr>]"

text \<open>A trade with the realized PnL 0.125, and a trade with the BNB fee 0.001.\<close>

definition eighth_trade :: trade where
  "eighth_trade =
     \<lparr>symbol = PStr ''BTCUSDC'', realizedPnl = Fin (1 / 8), commission = Fin 0,
      commissionAsset = PStr ''USDC''\<rparr>"

definition small_fee_trade :: trade where
  "small_fee_trade =
     \<lparr>symbol = PStr ''BTCUSDC'', realizedPnl = Fin 10, commission = Fin (1 / 1000),
      commissionAsset = PStr ''BNB''\<rparr>"

text \<open>The columns of a complete export.\<close>

definition all_columns :: "string list" where
  "all_columns = [''Date(UTC)'', ''Symbol'', ''Price'', ''Quantity'', ''Amount'', ''Fee'',
                  ''Fee Coin'', ''Realized Profit'']"

text \<open>
  A sheet with all columns and one row: the Symbol cell is blank (pandas reads NaN) and
  the Fee cell holds the text inf.
\<close>

definition odd_sheet :: excel_frame where
  "odd_sheet =
     \<lparr>columns = all_columns,
      records = [\<lparr>Date_UTC = Some 0, Symbol = PFloat NaN, Realized_Profit = PStr ''1.5'',
                  Fee = PStr ''inf'', Fee_Coin = PStr ''USDC''\<rparr>]\<rparr>"

text \<open>
  A sheet with all columns and one row, dated 100: the Fee cell has a thousands separator
  and the Realized Profit cell is not a number.
\<close>

definition comma_sheet :: excel_frame where
  "comma_sheet =
     \<lparr>columns = all_columns,
      records = [\<lparr>Date_UTC = Some 100, Symbol = PStr ''BTCUSDC'', Realized_Profit = PStr ''abc'',
                  Fee = PStr ''1,234.5'', Fee_Coin = PStr ''USDC''\<rparr>]\<rparr>"

text \<open>
  A sheet with all columns and two rows; in the first, the Realized Profit cell and the
  Fee cell both hold the text inf. The trades that main2.py reads from it: the net PnL of
  the first symbol is infinity minus infinity, which is NaN.
\<close>

definition inf_sheet :: excel_frame where
  "inf_sheet =
     \<lparr>columns = all_columns,
      records = [\<lparr>Date_UTC = Some 0, Symbol = PStr ''BTCUSDC'', Realized_Profit = PStr ''inf'',
                  Fee = PStr ''inf'', Fee_Coin = PStr ''USDC''\<rparr>,
                 \<lparr>Date_UTC = Some 0, Symbol = PStr ''ETHUSDC'', Realized_Profit = PStr ''1'',
                  Fee = PStr ''0'', Fee_Coin = PStr ''USDC''\<rparr>]\<rparr>"

definition nan_net_trades :: "trade list" where
  "nan_net_trades =
     [\<lparr>symbol = PStr ''BTCUSDC'', realizedPnl = PInf, commission = PInf,
       commissionAsset = PStr ''USDC''\<rparr>,
      \<lparr>symbol = PStr ''ETHUSDC'', realizedPnl = Fin 1, commission = Fin 0,
       commissionAsset = PStr ''USDC''\<rparr>]"

text \<open>
  The sheets of the examples hold no finite float cell, so evaluating them never asks for
  the \<open>repr\<close> of a float; this function stands in for it.
\<close>

definition unused_repr :: "rat \<Rightarrow> string" where
  "unused_repr r = []"

section \<open>The scenario of the specification\<close>

lemma scenario_main2:
  "main2_calculate_token_pnl (Inr (Fin 600)) scenario_trades =
     Inr [\<lparr>Token = PStr ''BTCUSDC'', Realized_PnL = Fin 80, BNB_Fees = Fin (1 / 100),
            BNB_Fees_USDC = Fin 6, Direct_USDC_Fees = Fin (1 / 2),
            Total_Fees_USDC = Fin (13 / 2), Net_PnL = Fin (147 / 2), Trades = 2\<rparr>,
          \<lparr>Token = PStr ''ETHUSDC'', Realized_PnL = Fin 50, BNB_Fees = Fin (2 / 100),
            BNB_Fees_USDC = Fin 12, Direct_USDC_Fees = Fin 0,
            Total_Fees_USDC = Fin 12, Net_PnL = Fin 38, Trades = 1\<rparr>,
          \<lparr>Token = PStr ''TOTAL'', Realized_PnL = Fin 130, BNB_Fees = Fin (3 / 100),
            BNB_Fees_USDC = Fin 18, Direct_USDC_Fees = Fin (1 / 2),
            Total_Fees_USDC = Fin (37 / 2), Net_PnL = Fin (223 / 2), Trades = 3\<rparr>]"
  by code_simp

lemma scenario_main:
  "main_calculate_token_pnl (Inr (Fin 600)) scenario_trades =
     main2_calculate_token_pnl (Inr (Fin 600)) scenario_trades"
  by code_simp

section \<open>The accumulation loop\<close>

lemma sum_trades_update:
  "sum_list (map (\<lambda>kv. trades (snd kv)) (AList.update k a d)) =
     sum_list (map (\<lambda>kv. trades (snd kv)) d) + trades a
       - (case map_of d k of None \<Rightarrow> 0 | Some b \<Rightarrow> trades b)"
  by (induction d) auto

lemma sum_trades_accumulate:
  "sum_list (map (\<lambda>kv. trades (snd kv)) (accumulate d t)) =
     sum_list (map (\<lambda>kv. trades (snd kv)) d) + 1"
  by (simp add: accumulate_def Let_def sum_trades_update new_acc_def split: option.split)

lemma sum_trades_foldl:
  "sum_list (map (\<lambda>kv. trades (snd kv)) (foldl accumulate d ts)) =
     sum_list (map (\<lambda>kv. trades (snd kv)) d) + int (length ts)"
  by (induction ts arbitrary: d) (simp_all add: sum_trades_accumulate)

lemma sum_trades_token_data:
  "sum_list (map (\<lambda>kv. trades (snd kv)) (token_data ts)) = int (length ts)"
  by (simp add: token_data_def sum_trades_foldl)

lemma token_data_nonempty: "ts \<noteq> [] \<Longrightarrow> token_data ts \<noteq> []"
  using sum_trades_token_data [of ts] by auto

lemma token_data_snoc: "token_data (ts @ [t]) = accumulate (token_data ts) t"
  by (simp add: token_data_def)

lemma keys_accumulate: "fst ` set (accumulate d t) = insert (symbol t) (fst ` set d)"
  by (simp add: accumulate_def Let_def dom_update)

lemma keys_token_data: "fst ` set (token_data ts) = symbol ` set ts"
proof (induction ts rule: rev_induct)
  case Nil
  show ?case by (simp add: token_data_def)
next
  case (snoc t ts)
  then show ?case by (simp add: token_data_snoc keys_accumulate)
qed

lemma distinct_token_data: "distinct (map fst (token_data ts))"
proof (induction ts rule: rev_induct)
  case Nil
  show ?case by (simp add: token_data_def)
next
  case (snoc t ts)
  then show ?case
    by (simp add: token_data_snoc accumulate_def Let_def distinct_update)
qed

lemma map_of_accumulate:
  "map_of (accumulate d t) sy =
     (if sy = symbol t
      then (let a0 = (case map_of d sy of None \<Rightarrow> new_acc | Some a \<Rightarrow> a)
            in Some \<lparr>realized_pnl = fadd (realized_pnl a0) (realizedPnl t),
                     bnb_fees = (if commissionAsset t = PStr ''BNB''
                                 then fadd (bnb_fees a0) (commission t) else bnb_fees a0),
                     usdc_fees = (if commissionAsset t \<noteq> PStr ''BNB'' \<and>
                                     (commissionAsset t = PStr ''USDC'' \<or>
                                      commissionAsset t = PStr ''USDT'')
                                  then fadd (usdc_fees a0) (commission t) else usdc_fees a0),
                     trades = trades a0 + 1\<rparr>)
      else map_of d sy)"
  by (simp add: accumulate_def Let_def update_conv')

text \<open>
  C3. After the loop, the entry of a symbol exists exactly when a trade has that symbol,
  and then: its realized PnL is the sum over all trades of the symbol, its trade count is
  their number, its BNB bucket is the sum of the commissions of exactly those of them
  whose \<open>commissionAsset\<close> is BNB, and its stable-coin bucket the sum of the commissions of
  exactly those whose \<open>commissionAsset\<close> is USDC or USDT. A trade with any other
  \<open>commissionAsset\<close> is counted and its realized PnL is added, and its commission is in
  neither bucket. (\<open>token_data\<close> is the loop of \<open>calculate_token_pnl\<close>, the same in both
  files; the rows show these sums rounded.)
\<close>

theorem fee_classification:
  "map_of (token_data ts) sy =
     (if sy \<in> symbol ` set ts
      then Some \<lparr>realized_pnl = fsum (map realizedPnl (filter (\<lambda>t. symbol t = sy) ts)),
                 bnb_fees = fsum (map commission
                   (filter (\<lambda>t. commissionAsset t = PStr ''BNB'')
                      (filter (\<lambda>t. symbol t = sy) ts))),
                 usdc_fees = fsum (map commission
                   (filter (\<lambda>t. commissionAsset t = PStr ''USDC'' \<or>
                                 commissionAsset t = PStr ''USDT'')
                      (filter (\<lambda>t. symbol t = sy) ts))),
                 trades = int (length (filter (\<lambda>t. symbol t = sy) ts))\<rparr>
      else None)"
proof (induction ts rule: rev_induct)
  case Nil
  show ?case by (simp add: token_data_def)
next
  case (snoc t ts)
  show ?case
  proof (cases "sy = symbol t")
    case False
    with snoc show ?thesis
      by (simp add: token_data_snoc map_of_accumulate)
  next
    case True
    show ?thesis
    proof (cases "sy \<in> symbol ` set ts")
      case False
      then have "filter (\<lambda>t. symbol t = sy) ts = []"
        by (auto simp: filter_empty_conv)
      with snoc False True show ?thesis
        by (simp add: token_data_snoc map_of_accumulate new_acc_def fsum_def)
    next
      case in_ts: True
      with snoc True show ?thesis
        by (simp add: token_data_snoc map_of_accumulate fsum_def)
    qed
  qed
qed

text \<open>
  For instance: of two BTCUSDC trades, one with a fee in BNB and one with a fee in ETH, both
  are counted and both realized PnLs are added, and only the BNB fee is in a bucket.
\<close>

lemma unrecognized_asset_example:
  "token_data
     [\<lparr>symbol = PStr ''BTCUSDC'', realizedPnl = Fin 3, commission = Fin (1 / 100),
       commissionAsset = PStr ''BNB''\<rparr>,
      \<lparr>symbol = PStr ''BTCUSDC'', realizedPnl = Fin 4, commission = Fin (1 / 10),
       commissionAsset = PStr ''ETH''\<rparr>] =
   [(PStr ''BTCUSDC'',
     \<lparr>realized_pnl = Fin 7, bnb_fees = Fin (1 / 100), usdc_fees = Fin 0, trades = 2\<rparr>)]"
  by code_simp

section \<open>The sorting of the rows\<close>

lemma mset_insort_by: "mset (insort_by k x ys) = add_mset x (mset ys)"
  by (induction ys) auto

lemma mset_argsort_asc: "mset (argsort_asc k xs) = mset xs"
  by (induction xs) (simp_all add: argsort_asc_def mset_insort_by)

lemma mset_sort_values_desc: "mset (sort_values_desc k df) = mset df"
proof -
  have "mset (filter (\<lambda>r. k r \<noteq> NaN) df) + mset (filter (\<lambda>r. k r = NaN) df) = mset df"
    by (induction df) auto
  then show ?thesis
    by (simp add: sort_values_desc_def Let_def mset_argsort_asc)
qed

lemma set_sort_values_desc: "set (sort_values_desc k df) = set df"
  using mset_sort_values_desc [of k df] by (rule mset_eq_setD)

lemma sum_list_sort_values_desc:
  fixes f :: "'a \<Rightarrow> int"
  shows "sum_list (map f (sort_values_desc k df)) = sum_list (map f df)"
proof -
  have "sum_mset (image_mset f (mset (sort_values_desc k df))) = sum_mset (image_mset f (mset df))"
    by (simp add: mset_sort_values_desc)
  then show ?thesis
    by (simp flip: mset_map add: sum_mset_sum_list)
qed

lemma fle_total: "a \<noteq> NaN \<Longrightarrow> b \<noteq> NaN \<Longrightarrow> fle a b \<or> fle b a"
  by (cases a; cases b) auto

lemma fle_trans: "fle a b \<Longrightarrow> fle b c \<Longrightarrow> fle a c"
  by (cases a; cases b; cases c) auto

lemma set_insort_by: "set (insort_by k x ys) = insert x (set ys)"
  by (induction ys) auto

lemma sorted_insort_by:
  assumes "k x \<noteq> NaN" and "\<forall>y\<in>set ys. k y \<noteq> NaN"
    and "sorted_wrt (\<lambda>a b. fle (k a) (k b)) ys"
  shows "sorted_wrt (\<lambda>a b. fle (k a) (k b)) (insort_by k x ys)"
  using assms
proof (induction ys)
  case Nil
  then show ?case by simp
next
  case (Cons y ys)
  show ?case
  proof (cases "fle (k x) (k y)")
    case True
    with Cons.prems show ?thesis
      by (auto intro: fle_trans)
  next
    case False
    with Cons.prems have "fle (k y) (k x)"
      using fle_total [of "k x" "k y"] by auto
    with False Cons show ?thesis
      by (auto simp: set_insort_by)
  qed
qed

lemma set_argsort_asc: "set (argsort_asc k xs) = set xs"
  by (induction xs) (simp_all add: argsort_asc_def set_insort_by)

lemma sorted_argsort_asc:
  "\<forall>x\<in>set xs. k x \<noteq> NaN \<Longrightarrow> sorted_wrt (\<lambda>a b. fle (k a) (k b)) (argsort_asc k xs)"
proof (induction xs)
  case Nil
  show ?case by (simp add: argsort_asc_def)
next
  case (Cons x xs)
  then have "sorted_wrt (\<lambda>a b. fle (k a) (k b)) (insort_by k x (argsort_asc k xs))"
    by (intro sorted_insort_by) (auto simp: set_argsort_asc)
  then show ?case by (simp add: argsort_asc_def)
qed

lemma sorted_sort_values_desc:
  "sorted_wrt (\<lambda>a b. k b = NaN \<or> fle (k b) (k a)) (sort_values_desc k df)"
proof -
  let ?nn = "filter (\<lambda>r. k r \<noteq> NaN) df"
  have "sorted_wrt (\<lambda>a b. fle (k a) (k b)) (argsort_asc k (rev ?nn))"
    by (rule sorted_argsort_asc) simp
  then have "sorted_wrt (\<lambda>a b. fle (k b) (k a)) (rev (argsort_asc k (rev ?nn)))"
    by (simp add: sorted_wrt_rev)
  then have 1: "sorted_wrt (\<lambda>a b. k b = NaN \<or> fle (k b) (k a)) (rev (argsort_asc k (rev ?nn)))"
    by (rule sorted_wrt_mono_rel [rotated]) simp
  have 2: "sorted_wrt (\<lambda>a b. k b = NaN \<or> fle (k b) (k a)) (filter (\<lambda>r. k r = NaN) df)"
    by (rule sorted_wrt_true [THEN sorted_wrt_mono_rel [rotated]]) simp
  show ?thesis
    using 1 2 by (auto simp: sort_values_desc_def Let_def sorted_wrt_append)
qed

section \<open>The shape of the result\<close>

lemma main_calculate_token_pnl_Inr:
  assumes "tk \<noteq> Inl OtherException" and "ts \<noteq> []"
  shows "\<exists>p. main_get_price tk = Inr p \<and>
           main_calculate_token_pnl tk ts =
             (let df = map (make_row p) (token_data ts)
              in if df \<noteq> [] then Inr (df @ [main_total df]) else Inr df)"
proof (cases tk)
  case (Inl e)
  with assms(1) have "e = ClientError" by (cases e) auto
  with Inl assms(2) show ?thesis by (simp add: main_calculate_token_pnl_def)
next
  case (Inr p)
  with assms(2) show ?thesis by (simp add: main_calculate_token_pnl_def)
qed

lemma main2_calculate_token_pnl_Inr:
  assumes "tk \<noteq> Inl OtherException" and "ts \<noteq> []"
  shows "\<exists>p. main2_get_price tk = Inr p \<and>
           main2_calculate_token_pnl tk ts =
             (let bnb_price = (if p = Fin 0 then Fin 600 else p);
                  df = map (make_row bnb_price) (token_data ts)
              in if df \<noteq> []
                 then (let df' = sort_values_desc Net_PnL df in Inr (df' @ [main2_total df']))
                 else Inr df)"
proof (cases tk)
  case (Inl e)
  with assms(1) have "e = ClientError" by (cases e) auto
  with Inl assms(2) show ?thesis by (simp add: main2_calculate_token_pnl_def)
next
  case (Inr p)
  with assms(2) show ?thesis by (simp add: main2_calculate_token_pnl_def)
qed

lemma main_result:
  assumes "tk \<noteq> Inl OtherException" and "ts \<noteq> []"
  shows "\<exists>p. main_get_price tk = Inr p \<and>
           main_calculate_token_pnl tk ts =
             Inr (map (make_row p) (token_data ts) @
                  [main_total (map (make_row p) (token_data ts))])"
proof -
  obtain p where p: "main_get_price tk = Inr p" "main_calculate_token_pnl tk ts =
      (let df = map (make_row p) (token_data ts)
       in if df \<noteq> [] then Inr (df @ [main_total df]) else Inr df)"
    using main_calculate_token_pnl_Inr [OF assms] by blast
  have "map (make_row p) (token_data ts) \<noteq> []"
    using token_data_nonempty [OF assms(2)] by simp
  with p show ?thesis by (simp add: Let_def)
qed

lemma main2_result:
  assumes "tk \<noteq> Inl OtherException" and "ts \<noteq> []"
  shows "\<exists>p. main2_get_price tk = Inr p \<and>
           main2_calculate_token_pnl tk ts =
             Inr (sort_values_desc Net_PnL
                    (map (make_row (if p = Fin 0 then Fin 600 else p)) (token_data ts)) @
                  [main2_total (sort_values_desc Net_PnL
                    (map (make_row (if p = Fin 0 then Fin 600 else p)) (token_data ts)))])"
proof -
  obtain p where p: "main2_get_price tk = Inr p" "main2_calculate_token_pnl tk ts =
      (let bnb_price = (if p = Fin 0 then Fin 600 else p);
           df = map (make_row bnb_price) (token_data ts)
       in if df \<noteq> []
          then (let df' = sort_values_desc Net_PnL df in Inr (df' @ [main2_total df']))
          else Inr df)"
    using main2_calculate_token_pnl_Inr [OF assms] by blast
  have "map (make_row (if p = Fin 0 then Fin 600 else p)) (token_data ts) \<noteq> []"
    using token_data_nonempty [OF assms(2)] by simp
  with p show ?thesis by (simp add: Let_def)
qed

lemma Token_make_row: "Token (make_row p kv) = fst kv"
  by (simp add: make_row_def Let_def)

lemma Trades_make_row: "Trades (make_row p kv) = trades (snd kv)"
  by (simp add: make_row_def Let_def)

lemma row_from_data:
  assumes "r \<in> set (map (make_row q) (token_data ts))"
  shows "\<exists>a. map_of (token_data ts) (Token r) = Some a \<and> r = make_row q (Token r, a)"
proof -
  from assms obtain k a where ka: "(k, a) \<in> set (token_data ts)" "r = make_row q (k, a)"
    by auto
  then have "map_of (token_data ts) k = Some a"
    using distinct_token_data [of ts] by (simp add: map_of_is_SomeI)
  with ka show ?thesis by (simp add: Token_make_row)
qed

section \<open>Trade counts\<close>

lemma sum_Trades_rows:
  "sum_list (map Trades (map (make_row p) (token_data ts))) = int (length ts)"
  using sum_trades_token_data [of ts] by (simp add: comp_def Trades_make_row)

text \<open>
  C4. For every trade sequence, in both files, when the price lookup does not raise an
  exception that \<open>get_price\<close> lets through: the empty sequence yields the empty table; a
  non-empty sequence yields the per-symbol rows followed by the TOTAL row, the trade
  counts of the per-symbol rows add up to the trade count of the TOTAL row, and both are
  the number of input trades.
\<close>

theorem trade_count_total:
  assumes "tk \<noteq> Inl OtherException"
  shows "(ts = [] \<longrightarrow>
            main_calculate_token_pnl tk ts = Inr [] \<and> main2_calculate_token_pnl tk ts = Inr []) \<and>
         (ts \<noteq> [] \<longrightarrow>
            (\<exists>rows total. main_calculate_token_pnl tk ts = Inr (rows @ [total]) \<and>
               Token total = PStr ''TOTAL'' \<and>
               sum_list (map Trades rows) = Trades total \<and>
               Trades total = int (length ts)) \<and>
            (\<exists>rows total. main2_calculate_token_pnl tk ts = Inr (rows @ [total]) \<and>
               Token total = PStr ''TOTAL'' \<and>
               sum_list (map Trades rows) = Trades total \<and>
               Trades total = int (length ts)))"
proof (cases "ts = []")
  case True
  then show ?thesis
    by (simp add: main_calculate_token_pnl_def main2_calculate_token_pnl_def)
next
  case False
  obtain p where p: "main_calculate_token_pnl tk ts =
      Inr (map (make_row p) (token_data ts) @ [main_total (map (make_row p) (token_data ts))])"
    using main_result [OF assms False] by blast
  let ?df = "map (make_row p) (token_data ts)"
  have "Token (main_total ?df) = PStr ''TOTAL''"
    by (simp add: main_total_def)
  moreover have "sum_list (map Trades ?df) = Trades (main_total ?df)"
    by (simp add: main_total_def)
  moreover have "Trades (main_total ?df) = int (length ts)"
    using sum_Trades_rows [of p ts] by (simp add: main_total_def)
  ultimately have m: "\<exists>rows total. main_calculate_token_pnl tk ts = Inr (rows @ [total]) \<and>
      Token total = PStr ''TOTAL'' \<and> sum_list (map Trades rows) = Trades total \<and>
      Trades total = int (length ts)"
    using p by blast
  obtain p' where p': "main2_calculate_token_pnl tk ts =
      Inr (sort_values_desc Net_PnL
             (map (make_row (if p' = Fin 0 then Fin 600 else p')) (token_data ts)) @
           [main2_total (sort_values_desc Net_PnL
             (map (make_row (if p' = Fin 0 then Fin 600 else p')) (token_data ts)))])"
    using main2_result [OF assms False] by blast
  define q where "q = (if p' = Fin 0 then Fin 600 else p')"
  let ?sd = "sort_values_desc Net_PnL (map (make_row q) (token_data ts))"
  have "Token (main2_total ?sd) = PStr ''TOTAL''"
    by (simp add: main2_total_def)
  moreover have "sum_list (map Trades ?sd) = Trades (main2_total ?sd)"
    by (simp add: main2_total_def)
  moreover have "Trades (main2_total ?sd) = int (length ts)"
    using sum_Trades_rows [of q ts]
    by (simp add: main2_total_def sum_list_sort_values_desc)
  ultimately have m2: "\<exists>rows total. main2_calculate_token_pnl tk ts = Inr (rows @ [total]) \<and>
      Token total = PStr ''TOTAL'' \<and> sum_list (map Trades rows) = Trades total \<and>
      Trades total = int (length ts)"
    using p' unfolding q_def by blast
  from False m m2 show ?thesis by blast
qed

theorem trade_count_total_witness:
  "(Inr (Fin 600) :: ticker) \<noteq> Inl OtherException \<and> scenario_trades \<noteq> [] \<and>
   (\<exists>rows total. main_calculate_token_pnl (Inr (Fin 600)) scenario_trades = Inr (rows @ [total]) \<and>
      Token total = PStr ''TOTAL'' \<and>
      sum_list (map Trades rows) = Trades total \<and> Trades total = 3) \<and>
   (\<exists>rows total. main2_calculate_token_pnl (Inr (Fin 600)) scenario_trades = Inr (rows @ [total]) \<and>
      Token total = PStr ''TOTAL'' \<and>
      sum_list (map Trades rows) = Trades total \<and> Trades total = 3)"
proof -
  have h1: "(Inr (Fin 600) :: ticker) \<noteq> Inl OtherException" by simp
  have h2: "scenario_trades \<noteq> []" by (simp add: scenario_trades_def)
  have "int (length scenario_trades) = 3" by (simp add: scenario_trades_def)
  with trade_count_total [OF h1, of scenario_trades] h1 h2 show ?thesis by simp
qed

section \<open>The TOTAL row\<close>

lemma length_filter_key:
  "distinct ks \<Longrightarrow> length (filter (\<lambda>k. k = x) ks) = (if x \<in> set ks then 1 else 0)"
  by (induction ks) auto

lemma count_total_rows:
  "count_total (map (make_row p) (token_data ts)) =
     (if PStr ''TOTAL'' \<in> symbol ` set ts then 1 else 0)"
proof -
  have "count_total (map (make_row p) (token_data ts)) =
          length (filter (\<lambda>k. k = PStr ''TOTAL'') (map fst (token_data ts)))"
    by (simp add: count_total_def filter_map comp_def Token_make_row)
  also have "\<dots> = (if PStr ''TOTAL'' \<in> set (map fst (token_data ts)) then 1 else 0)"
    by (rule length_filter_key [OF distinct_token_data])
  finally show ?thesis
    by (simp add: keys_token_data)
qed

lemma count_total_sort_values_desc: "count_total (sort_values_desc k df) = count_total df"
proof -
  have "size (filter_mset (\<lambda>r. Token r = PStr ''TOTAL'') (mset (sort_values_desc k df))) =
        size (filter_mset (\<lambda>r. Token r = PStr ''TOTAL'') (mset df))"
    by (simp only: mset_sort_values_desc)
  then show ?thesis
    by (simp add: count_total_def flip: mset_filter)
qed

lemma count_total_snoc:
  "count_total (df @ [r]) = count_total df + (if Token r = PStr ''TOTAL'' then 1 else 0)"
  by (simp add: count_total_def)

text \<open>
  C9 as the claim states it fails: a trade whose symbol is the string TOTAL gets a
  per-symbol row of that name, and the table has two rows named TOTAL.
\<close>

theorem total_row_counterexample:
  "main2_calculate_token_pnl (Inr (Fin 600)) [total_named_trade] =
     Inr [\<lparr>Token = PStr ''TOTAL'', Realized_PnL = Fin 1, BNB_Fees = Fin 0,
            BNB_Fees_USDC = Fin 0, Direct_USDC_Fees = Fin 0, Total_Fees_USDC = Fin 0,
            Net_PnL = Fin 1, Trades = 1\<rparr>,
          \<lparr>Token = PStr ''TOTAL'', Realized_PnL = Fin 1, BNB_Fees = Fin 0,
            BNB_Fees_USDC = Fin 0, Direct_USDC_Fees = Fin 0, Total_Fees_USDC = Fin 0,
            Net_PnL = Fin 1, Trades = 1\<rparr>] \<and>
   count_total
     [\<lparr>Token = PStr ''TOTAL'', Realized_PnL = Fin 1, BNB_Fees = Fin 0,
        BNB_Fees_USDC = Fin 0, Direct_USDC_Fees = Fin 0, Total_Fees_USDC = Fin 0,
        Net_PnL = Fin 1, Trades = 1\<rparr>,
      \<lparr>Token = PStr ''TOTAL'', Realized_PnL = Fin 1, BNB_Fees = Fin 0,
        BNB_Fees_USDC = Fin 0, Direct_USDC_Fees = Fin 0, Total_Fees_USDC = Fin 0,
        Net_PnL = Fin 1, Trades = 1\<rparr>] = 2"
  by code_simp

text \<open>
  C9, amended. When the price lookup does not raise an exception that \<open>get_price\<close> lets
  through, the table of main2.py is empty exactly when there is no trade; otherwise its
  final row is the appended row named TOTAL. The number of rows named TOTAL is 0 for no
  trade, 1 when no trade has the symbol TOTAL, and 2 when one has.
\<close>

theorem total_row_placement:
  assumes "tk \<noteq> Inl OtherException"
  shows "\<exists>df. main2_calculate_token_pnl tk ts = Inr df \<and>
           (df = []) = (ts = []) \<and>
           (if ts = [] then count_total df = 0
            else Token (last df) = PStr ''TOTAL'' \<and>
                 count_total df = (if PStr ''TOTAL'' \<in> symbol ` set ts then 2 else 1))"
proof (cases "ts = []")
  case True
  then show ?thesis
    by (simp add: main2_calculate_token_pnl_def count_total_def)
next
  case False
  obtain p where p: "main2_calculate_token_pnl tk ts =
      Inr (sort_values_desc Net_PnL
             (map (make_row (if p = Fin 0 then Fin 600 else p)) (token_data ts)) @
           [main2_total (sort_values_desc Net_PnL
             (map (make_row (if p = Fin 0 then Fin 600 else p)) (token_data ts)))])"
    using main2_result [OF assms False] by blast
  define q where "q = (if p = Fin 0 then Fin 600 else p)"
  let ?sd = "sort_values_desc Net_PnL (map (make_row q) (token_data ts))"
  have res: "main2_calculate_token_pnl tk ts = Inr (?sd @ [main2_total ?sd])"
    using p by (simp add: q_def)
  have tot: "Token (main2_total ?sd) = PStr ''TOTAL''"
    by (simp add: main2_total_def)
  have "count_total (?sd @ [main2_total ?sd]) =
          (if PStr ''TOTAL'' \<in> symbol ` set ts then 2 else 1)"
    by (simp add: count_total_snoc tot count_total_sort_values_desc count_total_rows)
  with res tot False show ?thesis by simp
qed

theorem total_row_placement_witness:
  "(Inr (Fin 600) :: ticker) \<noteq> Inl OtherException \<and>
   (\<exists>df. main2_calculate_token_pnl (Inr (Fin 600)) scenario_trades = Inr df \<and>
      df \<noteq> [] \<and> Token (last df) = PStr ''TOTAL'' \<and> count_total df = 1)"
proof -
  have h: "(Inr (Fin 600) :: ticker) \<noteq> Inl OtherException" by simp
  have ne: "scenario_trades \<noteq> []" by (simp add: scenario_trades_def)
  have no: "PStr ''TOTAL'' \<notin> symbol ` set scenario_trades"
    by (simp add: scenario_trades_def)
  from total_row_placement [OF h, of scenario_trades] ne no h show ?thesis
    by auto
qed

section \<open>The order of the rows\<close>

text \<open>
  C7 as the claim states it fails: two symbols of equal net PnL stay in the order in which
  the trades introduced them, here B before A.
\<close>

theorem row_order_counterexample:
  "main2_calculate_token_pnl (Inr (Fin 600)) tie_trades =
     Inr [\<lparr>Token = PStr ''B'', Realized_PnL = Fin 1, BNB_Fees = Fin 0,
            BNB_Fees_USDC = Fin 0, Direct_USDC_Fees = Fin 0, Total_Fees_USDC = Fin 0,
            Net_PnL = Fin 1, Trades = 1\<rparr>,
          \<lparr>Token = PStr ''A'', Realized_PnL = Fin 1, BNB_Fees = Fin 0,
            BNB_Fees_USDC = Fin 0, Direct_USDC_Fees = Fin 0, Total_Fees_USDC = Fin 0,
            Net_PnL = Fin 1, Trades = 1\<rparr>,
          \<lparr>Token = PStr ''TOTAL'', Realized_PnL = Fin 2, BNB_Fees = Fin 0,
            BNB_Fees_USDC = Fin 0, Direct_USDC_Fees = Fin 0, Total_Fees_USDC = Fin 0,
            Net_PnL = Fin 2, Trades = 2\<rparr>] \<and>
   \<not> sorted_wrt claimed_before
     [\<lparr>Token = PStr ''B'', Realized_PnL = Fin 1, BNB_Fees = Fin 0,
        BNB_Fees_USDC = Fin 0, Direct_USDC_Fees = Fin 0, Total_Fees_USDC = Fin 0,
        Net_PnL = Fin 1, Trades = 1\<rparr>,
      \<lparr>Token = PStr ''A'', Realized_PnL = Fin 1, BNB_Fees = Fin 0,
        BNB_Fees_USDC = Fin 0, Direct_USDC_Fees = Fin 0, Total_Fees_USDC = Fin 0,
        Net_PnL = Fin 1, Trades = 1\<rparr>]"
  by code_simp

text \<open>
  C7, amended. In main2.py, when the price lookup does not raise an exception that
  \<open>get_price\<close> lets through, the rows before the TOTAL row are one row per distinct symbol,
  sorted by net PnL descending, the rows whose net PnL is NaN last. Nothing orders rows of
  equal net PnL by symbol.
\<close>

theorem row_order:
  assumes "tk \<noteq> Inl OtherException" and "ts \<noteq> []"
  shows "\<exists>rows total. main2_calculate_token_pnl tk ts = Inr (rows @ [total]) \<and>
           sorted_wrt net_desc rows \<and>
           mset (map Token rows) = mset (map fst (token_data ts)) \<and>
           distinct (map Token rows) \<and>
           set (map Token rows) = symbol ` set ts"
proof -
  obtain p where p: "main2_calculate_token_pnl tk ts =
      Inr (sort_values_desc Net_PnL
             (map (make_row (if p = Fin 0 then Fin 600 else p)) (token_data ts)) @
           [main2_total (sort_values_desc Net_PnL
             (map (make_row (if p = Fin 0 then Fin 600 else p)) (token_data ts)))])"
    using main2_result [OF assms] by blast
  define q where "q = (if p = Fin 0 then Fin 600 else p)"
  let ?df = "map (make_row q) (token_data ts)"
  let ?sd = "sort_values_desc Net_PnL ?df"
  have res: "main2_calculate_token_pnl tk ts = Inr (?sd @ [main2_total ?sd])"
    using p by (simp add: q_def)
  have srt: "sorted_wrt net_desc ?sd"
    using sorted_sort_values_desc [of Net_PnL ?df] by (simp add: net_desc_def [abs_def])
  have "mset (map Token ?sd) = image_mset Token (mset ?df)"
    by (simp add: mset_sort_values_desc)
  also have "\<dots> = mset (map Token ?df)" by (simp only: mset_map)
  also have "map Token ?df = map fst (token_data ts)"
    by (simp add: comp_def Token_make_row)
  finally have ms: "mset (map Token ?sd) = mset (map fst (token_data ts))" .
  have dist: "distinct (map Token ?sd)"
    using ms distinct_token_data [of ts] by (metis mset_eq_imp_distinct_iff)
  have "set (map Token ?sd) = set (map fst (token_data ts))"
    using ms by (rule mset_eq_setD)
  then have st: "set (map Token ?sd) = symbol ` set ts"
    by (simp add: keys_token_data)
  from res srt ms dist st show ?thesis by blast
qed

theorem row_order_witness:
  "(Inr (Fin 600) :: ticker) \<noteq> Inl OtherException \<and> scenario_trades \<noteq> [] \<and>
   (\<exists>rows total. main2_calculate_token_pnl (Inr (Fin 600)) scenario_trades = Inr (rows @ [total]) \<and>
      sorted_wrt net_desc rows \<and>
      mset (map Token rows) = mset (map fst (token_data scenario_trades)) \<and>
      distinct (map Token rows) \<and>
      set (map Token rows) = symbol ` set scenario_trades)"
proof -
  have h1: "(Inr (Fin 600) :: ticker) \<noteq> Inl OtherException" by simp
  have h2: "scenario_trades \<noteq> []" by (simp add: scenario_trades_def)
  from row_order [OF h1 h2] h1 h2 show ?thesis by blast
qed

section \<open>Rounding\<close>

lemma round_half_even_error:
  "\<bar>x - of_int (round_half_even x)\<bar> \<le> 1 / 2"
proof -
  have "of_int \<lfloor>x\<rfloor> \<le> x" "x < of_int \<lfloor>x\<rfloor> + 1"
    by linarith+
  then show ?thesis
    by (auto simp: round_half_even_def Let_def)
qed

lemma round_half_even_tie:
  "\<bar>x - of_int (round_half_even x)\<bar> = 1 / 2 \<Longrightarrow> even (round_half_even x)"
proof -
  have "of_int \<lfloor>x\<rfloor> \<le> x" "x < of_int \<lfloor>x\<rfloor> + 1"
    by linarith+
  then show "\<bar>x - of_int (round_half_even x)\<bar> = 1 / 2 \<Longrightarrow> even (round_half_even x)"
    by (auto simp: round_half_even_def Let_def split: if_splits)
qed

lemma rounds_to_py_round: "rounds_to x n (py_round x n)"
proof (cases x)
  case (Fin a)
  have "\<lfloor>(of_int (round_half_even (a * 10 ^ n)) / 10 ^ n :: rat) * 10 ^ n\<rfloor> = round_half_even (a * 10 ^ n)"
    by simp
  with Fin show ?thesis
    using round_half_even_error [of "a * 10 ^ n"] round_half_even_tie [of "a * 10 ^ n"]
    by (simp add: rounds_to_def Let_def)
qed (simp_all add: rounds_to_def)

lemma rounded_row_make_row: "rounded_row q a (make_row q (k, a))"
  by (simp add: rounded_row_def make_row_def Let_def rounds_to_py_round)

lemma rounded_rows:
  assumes "r \<in> set (map (make_row q) (token_data ts))"
  shows "\<exists>a. map_of (token_data ts) (Token r) = Some a \<and> rounded_row q a r"
proof -
  from assms obtain a where a: "map_of (token_data ts) (Token r) = Some a"
      "r = make_row q (Token r, a)"
    using row_from_data by blast
  have "rounded_row q a (make_row q (Token r, a))" by (rule rounded_row_make_row)
  with a show ?thesis by auto
qed

text \<open>
  C6 as the claim states it fails: the realized PnL 0.125 is shown as 0.12 in both files,
  where rounding half away from zero gives 0.13.
\<close>

theorem rounding_counterexample:
  "token_data [eighth_trade] =
     [(PStr ''BTCUSDC'',
       \<lparr>realized_pnl = Fin (1 / 8), bnb_fees = Fin 0, usdc_fees = Fin 0, trades = 1\<rparr>)] \<and>
   main2_calculate_token_pnl (Inr (Fin 600)) [eighth_trade] =
     Inr [\<lparr>Token = PStr ''BTCUSDC'', Realized_PnL = Fin (12 / 100), BNB_Fees = Fin 0,
            BNB_Fees_USDC = Fin 0, Direct_USDC_Fees = Fin 0, Total_Fees_USDC = Fin 0,
            Net_PnL = Fin (12 / 100), Trades = 1\<rparr>,
          \<lparr>Token = PStr ''TOTAL'', Realized_PnL = Fin (12 / 100), BNB_Fees = Fin 0,
            BNB_Fees_USDC = Fin 0, Direct_USDC_Fees = Fin 0, Total_Fees_USDC = Fin 0,
            Net_PnL = Fin (12 / 100), Trades = 1\<rparr>] \<and>
   main_calculate_token_pnl (Inr (Fin 600)) [eighth_trade] =
     main2_calculate_token_pnl (Inr (Fin 600)) [eighth_trade] \<and>
   round_half_away (1 / 8) 2 = 13 / 100"
  by code_simp

text \<open>
  C6, amended. In both files, when the price lookup does not raise an exception that
  \<open>get_price\<close> lets through, every per-symbol row of a non-empty input shows the values of
  the accumulator of its symbol rounded with Python's \<open>round\<close>: the realized PnL, the BNB
  fees in USDC, the direct USDC fees, the total fees and the net PnL to 2 decimal places,
  the BNB fee quantity to 5, each to the nearest multiple and half way to the even one
  (NaN and the infinities unchanged). The TOTAL row of main2.py is rounded the same way
  from the column sums.
\<close>

theorem rows_are_rounded:
  assumes "tk \<noteq> Inl OtherException" and "ts \<noteq> []"
  shows "(\<exists>p rows total. main_get_price tk = Inr p \<and>
            main_calculate_token_pnl tk ts = Inr (rows @ [total]) \<and>
            (\<forall>r\<in>set rows. \<exists>a. map_of (token_data ts) (Token r) = Some a \<and> rounded_row p a r)) \<and>
         (\<exists>p rows total. main2_get_price tk = Inr p \<and>
            main2_calculate_token_pnl tk ts = Inr (rows @ [total]) \<and>
            (\<forall>r\<in>set rows. \<exists>a. map_of (token_data ts) (Token r) = Some a \<and>
               rounded_row (if p = Fin 0 then Fin 600 else p) a r) \<and>
            rounds_to (pd_sum (map Realized_PnL rows)) 2 (Realized_PnL total) \<and>
            rounds_to (pd_sum (map BNB_Fees rows)) 5 (BNB_Fees total) \<and>
            rounds_to (pd_sum (map BNB_Fees_USDC rows)) 2 (BNB_Fees_USDC total) \<and>
            rounds_to (pd_sum (map Direct_USDC_Fees rows)) 2 (Direct_USDC_Fees total) \<and>
            rounds_to (pd_sum (map Total_Fees_USDC rows)) 2 (Total_Fees_USDC total) \<and>
            rounds_to (pd_sum (map Net_PnL rows)) 2 (Net_PnL total))"
proof
  obtain p where p: "main_get_price tk = Inr p"
    "main_calculate_token_pnl tk ts =
       Inr (map (make_row p) (token_data ts) @ [main_total (map (make_row p) (token_data ts))])"
    using main_result [OF assms] by blast
  have "\<forall>r\<in>set (map (make_row p) (token_data ts)).
          \<exists>a. map_of (token_data ts) (Token r) = Some a \<and> rounded_row p a r"
    using rounded_rows by blast
  with p show "\<exists>p rows total. main_get_price tk = Inr p \<and>
      main_calculate_token_pnl tk ts = Inr (rows @ [total]) \<and>
      (\<forall>r\<in>set rows. \<exists>a. map_of (token_data ts) (Token r) = Some a \<and> rounded_row p a r)"
    by blast
next
  obtain p where p: "main2_get_price tk = Inr p"
    "main2_calculate_token_pnl tk ts =
       Inr (sort_values_desc Net_PnL
              (map (make_row (if p = Fin 0 then Fin 600 else p)) (token_data ts)) @
            [main2_total (sort_values_desc Net_PnL
              (map (make_row (if p = Fin 0 then Fin 600 else p)) (token_data ts)))])"
    using main2_result [OF assms] by blast
  define q where "q = (if p = Fin 0 then Fin 600 else p)"
  define sd where "sd = sort_values_desc Net_PnL (map (make_row q) (token_data ts))"
  have res: "main2_calculate_token_pnl tk ts = Inr (sd @ [main2_total sd])"
    using p(2) by (simp add: sd_def q_def)
  have rows: "\<forall>r\<in>set sd. \<exists>a. map_of (token_data ts) (Token r) = Some a \<and> rounded_row q a r"
    unfolding sd_def set_sort_values_desc using rounded_rows by blast
  have "rounds_to (pd_sum (map Realized_PnL sd)) 2 (Realized_PnL (main2_total sd))"
    "rounds_to (pd_sum (map BNB_Fees sd)) 5 (BNB_Fees (main2_total sd))"
    "rounds_to (pd_sum (map BNB_Fees_USDC sd)) 2 (BNB_Fees_USDC (main2_total sd))"
    "rounds_to (pd_sum (map Direct_USDC_Fees sd)) 2 (Direct_USDC_Fees (main2_total sd))"
    "rounds_to (pd_sum (map Total_Fees_USDC sd)) 2 (Total_Fees_USDC (main2_total sd))"
    "rounds_to (pd_sum (map Net_PnL sd)) 2 (Net_PnL (main2_total sd))"
    by (simp_all add: main2_total_def rounds_to_py_round)
  with p(1) res rows show "\<exists>p rows total. main2_get_price tk = Inr p \<and>
            main2_calculate_token_pnl tk ts = Inr (rows @ [total]) \<and>
            (\<forall>r\<in>set rows. \<exists>a. map_of (token_data ts) (Token r) = Some a \<and>
               rounded_row (if p = Fin 0 then Fin 600 else p) a r) \<and>
            rounds_to (pd_sum (map Realized_PnL rows)) 2 (Realized_PnL total) \<and>
            rounds_to (pd_sum (map BNB_Fees rows)) 5 (BNB_Fees total) \<and>
            rounds_to (pd_sum (map BNB_Fees_USDC rows)) 2 (BNB_Fees_USDC total) \<and>
            rounds_to (pd_sum (map Direct_USDC_Fees rows)) 2 (Direct_USDC_Fees total) \<and>
            rounds_to (pd_sum (map Total_Fees_USDC rows)) 2 (Total_Fees_USDC total) \<and>
            rounds_to (pd_sum (map Net_PnL rows)) 2 (Net_PnL total)"
    unfolding q_def by blast
qed

theorem rows_are_rounded_witness:
  "(Inr (Fin 600) :: ticker) \<noteq> Inl OtherException \<and> scenario_trades \<noteq> [] \<and>
   (\<exists>p rows total. main_get_price (Inr (Fin 600)) = Inr p \<and>
      main_calculate_token_pnl (Inr (Fin 600)) scenario_trades = Inr (rows @ [total]) \<and>
      (\<forall>r\<in>set rows. \<exists>a. map_of (token_data scenario_trades) (Token r) = Some a \<and>
         rounded_row p a r)) \<and>
   (\<exists>p rows total. main2_get_price (Inr (Fin 600)) = Inr p \<and>
      main2_calculate_token_pnl (Inr (Fin 600)) scenario_trades = Inr (rows @ [total]) \<and>
      (\<forall>r\<in>set rows. \<exists>a. map_of (token_data scenario_trades) (Token r) = Some a \<and>
         rounded_row (if p = Fin 0 then Fin 600 else p) a r) \<and>
      rounds_to (pd_sum (map Realized_PnL rows)) 2 (Realized_PnL total) \<and>
      rounds_to (pd_sum (map BNB_Fees rows)) 5 (BNB_Fees total) \<and>
      rounds_to (pd_sum (map BNB_Fees_USDC rows)) 2 (BNB_Fees_USDC total) \<and>
      rounds_to (pd_sum (map Direct_USDC_Fees rows)) 2 (Direct_USDC_Fees total) \<and>
      rounds_to (pd_sum (map Total_Fees_USDC rows)) 2 (Total_Fees_USDC total) \<and>
      rounds_to (pd_sum (map Net_PnL rows)) 2 (Net_PnL total))"
proof -
  have h1: "(Inr (Fin 600) :: ticker) \<noteq> Inl OtherException" by simp
  have h2: "scenario_trades \<noteq> []" by (simp add: scenario_trades_def)
  from rows_are_rounded [OF h1 h2] h1 h2 show ?thesis by blast
qed

section \<open>The TOTAL row and the rows\<close>

lemma column_sums_main_total: "column_sums df (main_total df)"
  by (simp add: column_sums_def main_total_def)

lemma rounded_column_sums_main2_total: "rounded_column_sums df (main2_total df)"
  by (simp add: rounded_column_sums_def main2_total_def)

lemma nan_net_trades_from_file:
  "main2_get_trades_from_file unused_repr \<lparr>wall_clock = 0, tzinfo = None\<rparr>
     ''Export Trade History.xlsx'' (Inr inf_sheet) = nan_net_trades"
  by code_simp

text \<open>
  C1 as the claim states it fails: pandas leaves NaN out of a column sum. With a row whose
  net PnL is NaN, beside a row whose net PnL is 1, the TOTAL row of both files shows the
  net PnL 1, while the sum of the two net PnL values shown in the rows is NaN.
\<close>

theorem total_sum_counterexample:
  "main2_calculate_token_pnl (Inr (Fin 600)) nan_net_trades =
     Inr [\<lparr>Token = PStr ''ETHUSDC'', Realized_PnL = Fin 1, BNB_Fees = Fin 0,
            BNB_Fees_USDC = Fin 0, Direct_USDC_Fees = Fin 0, Total_Fees_USDC = Fin 0,
            Net_PnL = Fin 1, Trades = 1\<rparr>,
          \<lparr>Token = PStr ''BTCUSDC'', Realized_PnL = PInf, BNB_Fees = Fin 0,
            BNB_Fees_USDC = Fin 0, Direct_USDC_Fees = PInf, Total_Fees_USDC = PInf,
            Net_PnL = NaN, Trades = 1\<rparr>,
          \<lparr>Token = PStr ''TOTAL'', Realized_PnL = PInf, BNB_Fees = Fin 0,
            BNB_Fees_USDC = Fin 0, Direct_USDC_Fees = PInf, Total_Fees_USDC = PInf,
            Net_PnL = Fin 1, Trades = 2\<rparr>] \<and>
   main_calculate_token_pnl (Inr (Fin 600)) nan_net_trades =
     Inr [\<lparr>Token = PStr ''BTCUSDC'', Realized_PnL = PInf, BNB_Fees = Fin 0,
            BNB_Fees_USDC = Fin 0, Direct_USDC_Fees = PInf, Total_Fees_USDC = PInf,
            Net_PnL = NaN, Trades = 1\<rparr>,
          \<lparr>Token = PStr ''ETHUSDC'', Realized_PnL = Fin 1, BNB_Fees = Fin 0,
            BNB_Fees_USDC = Fin 0, Direct_USDC_Fees = Fin 0, Total_Fees_USDC = Fin 0,
            Net_PnL = Fin 1, Trades = 1\<rparr>,
          \<lparr>Token = PStr ''TOTAL'', Realized_PnL = PInf, BNB_Fees = Fin 0,
            BNB_Fees_USDC = Fin 0, Direct_USDC_Fees = PInf, Total_Fees_USDC = PInf,
            Net_PnL = Fin 1, Trades = 2\<rparr>] \<and>
   fsum [Fin 1, NaN] = NaN \<and> fsum [NaN, Fin 1] = NaN"
  by code_simp

text \<open>
  C1, amended. For every non-empty trade sequence, in both files, when the price lookup
  does not raise an exception that \<open>get_price\<close> lets through: the rows before the TOTAL row
  show the rounded values of the accumulators of their symbols, and every numeric field of
  the TOTAL row is computed from the values shown in those rows, not from the
  accumulators. In main.py it is the pandas sum of the column, which leaves NaN out; in
  main2.py it is that sum rounded once more, to 2 decimal places (5 for the BNB fees). The
  trade count is the integer sum.
\<close>

theorem total_from_rows:
  assumes "tk \<noteq> Inl OtherException" and "ts \<noteq> []"
  shows "(\<exists>p rows total. main_get_price tk = Inr p \<and>
            main_calculate_token_pnl tk ts = Inr (rows @ [total]) \<and>
            (\<forall>r\<in>set rows. \<exists>a. map_of (token_data ts) (Token r) = Some a \<and> rounded_row p a r) \<and>
            column_sums rows total) \<and>
         (\<exists>p rows total. main2_get_price tk = Inr p \<and>
            main2_calculate_token_pnl tk ts = Inr (rows @ [total]) \<and>
            (\<forall>r\<in>set rows. \<exists>a. map_of (token_data ts) (Token r) = Some a \<and>
               rounded_row (if p = Fin 0 then Fin 600 else p) a r) \<and>
            rounded_column_sums rows total)"
proof
  obtain p where p: "main_get_price tk = Inr p"
    "main_calculate_token_pnl tk ts =
       Inr (map (make_row p) (token_data ts) @ [main_total (map (make_row p) (token_data ts))])"
    using main_result [OF assms] by blast
  have "\<forall>r\<in>set (map (make_row p) (token_data ts)).
          \<exists>a. map_of (token_data ts) (Token r) = Some a \<and> rounded_row p a r"
    using rounded_rows by blast
  moreover have "column_sums (map (make_row p) (token_data ts))
      (main_total (map (make_row p) (token_data ts)))"
    by (rule column_sums_main_total)
  ultimately show "\<exists>p rows total. main_get_price tk = Inr p \<and>
      main_calculate_token_pnl tk ts = Inr (rows @ [total]) \<and>
      (\<forall>r\<in>set rows. \<exists>a. map_of (token_data ts) (Token r) = Some a \<and> rounded_row p a r) \<and>
      column_sums rows total"
    using p by blast
next
  obtain p where p: "main2_get_price tk = Inr p"
    "main2_calculate_token_pnl tk ts =
       Inr (sort_values_desc Net_PnL
              (map (make_row (if p = Fin 0 then Fin 600 else p)) (token_data ts)) @
            [main2_total (sort_values_desc Net_PnL
              (map (make_row (if p = Fin 0 then Fin 600 else p)) (token_data ts)))])"
    using main2_result [OF assms] by blast
  define q where "q = (if p = Fin 0 then Fin 600 else p)"
  define sd where "sd = sort_values_desc Net_PnL (map (make_row q) (token_data ts))"
  have res: "main2_calculate_token_pnl tk ts = Inr (sd @ [main2_total sd])"
    using p(2) by (simp add: sd_def q_def)
  have rows: "\<forall>r\<in>set sd. \<exists>a. map_of (token_data ts) (Token r) = Some a \<and> rounded_row q a r"
    unfolding sd_def set_sort_values_desc using rounded_rows by blast
  have "rounded_column_sums sd (main2_total sd)"
    by (rule rounded_column_sums_main2_total)
  with p(1) res rows show "\<exists>p rows total. main2_get_price tk = Inr p \<and>
            main2_calculate_token_pnl tk ts = Inr (rows @ [total]) \<and>
            (\<forall>r\<in>set rows. \<exists>a. map_of (token_data ts) (Token r) = Some a \<and>
               rounded_row (if p = Fin 0 then Fin 600 else p) a r) \<and>
            rounded_column_sums rows total"
    unfolding q_def by blast
qed

text \<open>
  The sum is taken after the rounding: two symbols with a net PnL of 0.004 each give two
  rows showing 0.00 and a TOTAL of 0.00, where the sum of the unrounded values rounds to
  0.01.
\<close>

lemma half_cent_total:
  "main2_calculate_token_pnl (Inr (Fin 600)) half_cent_trades =
     Inr [\<lparr>Token = PStr ''BTCUSDC'', Realized_PnL = Fin 0, BNB_Fees = Fin 0,
            BNB_Fees_USDC = Fin 0, Direct_USDC_Fees = Fin 0, Total_Fees_USDC = Fin 0,
            Net_PnL = Fin 0, Trades = 1\<rparr>,
          \<lparr>Token = PStr ''ETHUSDC'', Realized_PnL = Fin 0, BNB_Fees = Fin 0,
            BNB_Fees_USDC = Fin 0, Direct_USDC_Fees = Fin 0, Total_Fees_USDC = Fin 0,
            Net_PnL = Fin 0, Trades = 1\<rparr>,
          \<lparr>Token = PStr ''TOTAL'', Realized_PnL = Fin 0, BNB_Fees = Fin 0,
            BNB_Fees_USDC = Fin 0, Direct_USDC_Fees = Fin 0, Total_Fees_USDC = Fin 0,
            Net_PnL = Fin 0, Trades = 2\<rparr>] \<and>
   py_round (fsum (map realizedPnl half_cent_trades)) 2 = Fin (1 / 100)"
  by code_simp

theorem total_from_rows_witness:
  "(Inr (Fin 600) :: ticker) \<noteq> Inl OtherException \<and> half_cent_trades \<noteq> [] \<and>
   (\<exists>p rows total. main_get_price (Inr (Fin 600)) = Inr p \<and>
      main_calculate_token_pnl (Inr (Fin 600)) half_cent_trades = Inr (rows @ [total]) \<and>
      (\<forall>r\<in>set rows. \<exists>a. map_of (token_data half_cent_trades) (Token r) = Some a \<and>
         rounded_row p a r) \<and>
      column_sums rows total) \<and>
   (\<exists>p rows total. main2_get_price (Inr (Fin 600)) = Inr p \<and>
      main2_calculate_token_pnl (Inr (Fin 600)) half_cent_trades = Inr (rows @ [total]) \<and>
      (\<forall>r\<in>set rows. \<exists>a. map_of (token_data half_cent_trades) (Token r) = Some a \<and>
         rounded_row (if p = Fin 0 then Fin 600 else p) a r) \<and>
      rounded_column_sums rows total)"
proof -
  have h1: "(Inr (Fin 600) :: ticker) \<noteq> Inl OtherException" by simp
  have h2: "half_cent_trades \<noteq> []" by (simp add: half_cent_trades_def)
  from total_from_rows [OF h1 h2] h1 h2 show ?thesis by blast
qed

section \<open>The fallback rate\<close>

lemma fmul_one: "fmul x (Fin 1) = x"
  by (cases x) (simp_all add: inf_times_def)

lemma py_round_zero_small:
  assumes "py_round (Fin f) n = Fin 0"
  shows "\<bar>f\<bar> \<le> 1 / (2 * 10 ^ n)"
proof -
  from assms have "round_half_even (f * 10 ^ n) = 0" by simp
  with round_half_even_error [of "f * 10 ^ n"] have "\<bar>f * 10 ^ n\<bar> \<le> 1 / 2" by simp
  then have "\<bar>f\<bar> * 10 ^ n \<le> 1 / 2" by (simp add: abs_mult)
  then show ?thesis by (simp add: field_simps)
qed

lemma BNB_Fees_USDC_make_row:
  "BNB_Fees_USDC (make_row q (k, a)) = py_round (fmul (bnb_fees a) q) 2"
  by (simp add: make_row_def Let_def)

text \<open>
  C2 as the claim states it fails: with the fallback rate 1.0 of main2.py, a trade with
  the positive BNB fee 0.001 is shown with BNB fees in USDC of 0.
\<close>

theorem fallback_rate_counterexample:
  "main2_calculate_token_pnl (Inl ClientError) [small_fee_trade] =
     Inr [\<lparr>Token = PStr ''BTCUSDC'', Realized_PnL = Fin 10, BNB_Fees = Fin (1 / 1000),
            BNB_Fees_USDC = Fin 0, Direct_USDC_Fees = Fin 0, Total_Fees_USDC = Fin 0,
            Net_PnL = Fin 10, Trades = 1\<rparr>,
          \<lparr>Token = PStr ''TOTAL'', Realized_PnL = Fin 10, BNB_Fees = Fin (1 / 1000),
            BNB_Fees_USDC = Fin 0, Direct_USDC_Fees = Fin 0, Total_Fees_USDC = Fin 0,
            Net_PnL = Fin 10, Trades = 1\<rparr>]"
  by code_simp

text \<open>
  C2, amended. In main2.py, when the price lookup raises \<open>ClientError\<close>, \<open>get_price\<close>
  returns the fixed rate 1.0, which is not zero, and every per-symbol row of a non-empty
  input shows as BNB fees in USDC the accumulated BNB fees of its symbol, times 1.0,
  rounded to 2 decimal places: a finite value whenever the accumulated fees are finite,
  and not zero whenever they are greater than 0.005 in absolute value.
\<close>

theorem fallback_rate:
  assumes "ts \<noteq> []"
  shows "main2_get_price (Inl ClientError) = Inr (Fin 1) \<and>
         (\<exists>rows total. main2_calculate_token_pnl (Inl ClientError) ts = Inr (rows @ [total]) \<and>
            (\<forall>r\<in>set rows. \<exists>a. map_of (token_data ts) (Token r) = Some a \<and>
               BNB_Fees_USDC r = py_round (bnb_fees a) 2 \<and>
               (\<forall>f. bnb_fees a = Fin f \<longrightarrow>
                  (\<exists>g. BNB_Fees_USDC r = Fin g \<and> (1 / 200 < \<bar>f\<bar> \<longrightarrow> g \<noteq> 0)))))"
proof
  show "main2_get_price (Inl ClientError) = Inr (Fin 1)" by simp
next
  have ok: "(Inl ClientError :: ticker) \<noteq> Inl OtherException" by simp
  obtain p where p: "main2_get_price (Inl ClientError) = Inr p"
    "main2_calculate_token_pnl (Inl ClientError) ts =
       Inr (sort_values_desc Net_PnL
              (map (make_row (if p = Fin 0 then Fin 600 else p)) (token_data ts)) @
            [main2_total (sort_values_desc Net_PnL
              (map (make_row (if p = Fin 0 then Fin 600 else p)) (token_data ts)))])"
    using main2_result [OF ok assms] by blast
  from p(1) have p1: "p = Fin 1" by simp
  define sd where "sd = sort_values_desc Net_PnL (map (make_row (Fin 1)) (token_data ts))"
  have res: "main2_calculate_token_pnl (Inl ClientError) ts = Inr (sd @ [main2_total sd])"
    using p(2) by (simp add: p1 sd_def)
  have "\<forall>r\<in>set sd. \<exists>a. map_of (token_data ts) (Token r) = Some a \<and>
               BNB_Fees_USDC r = py_round (bnb_fees a) 2 \<and>
               (\<forall>f. bnb_fees a = Fin f \<longrightarrow>
                  (\<exists>g. BNB_Fees_USDC r = Fin g \<and> (1 / 200 < \<bar>f\<bar> \<longrightarrow> g \<noteq> 0)))"
  proof
    fix r assume "r \<in> set sd"
    then have "r \<in> set (map (make_row (Fin 1)) (token_data ts))"
      by (simp only: sd_def set_sort_values_desc)
    then obtain a where a: "map_of (token_data ts) (Token r) = Some a"
        "r = make_row (Fin 1) (Token r, a)"
      using row_from_data by blast
    have "BNB_Fees_USDC (make_row (Fin 1) (Token r, a)) = py_round (bnb_fees a) 2"
      by (simp add: BNB_Fees_USDC_make_row fmul_one)
    with a(2) have b: "BNB_Fees_USDC r = py_round (bnb_fees a) 2" by simp
    have "\<exists>g. BNB_Fees_USDC r = Fin g \<and> (1 / 200 < \<bar>f\<bar> \<longrightarrow> g \<noteq> 0)"
      if f: "bnb_fees a = Fin f" for f
    proof -
      define g where "g = (of_int (round_half_even (f * 10 ^ 2)) / 10 ^ 2 :: rat)"
      have g: "py_round (Fin f) 2 = Fin g" by (simp only: py_round.simps g_def)
      have "g \<noteq> 0" if big: "1 / 200 < \<bar>f\<bar>"
      proof
        assume "g = 0"
        with g have "py_round (Fin f) 2 = Fin 0" by simp
        then have "\<bar>f\<bar> \<le> 1 / (2 * 10 ^ 2)" by (rule py_round_zero_small)
        with big show False by simp
      qed
      with b f g show ?thesis by simp
    qed
    with a(1) b show "\<exists>a. map_of (token_data ts) (Token r) = Some a \<and>
               BNB_Fees_USDC r = py_round (bnb_fees a) 2 \<and>
               (\<forall>f. bnb_fees a = Fin f \<longrightarrow>
                  (\<exists>g. BNB_Fees_USDC r = Fin g \<and> (1 / 200 < \<bar>f\<bar> \<longrightarrow> g \<noteq> 0)))"
      by blast
  qed
  with res show "\<exists>rows total. main2_calculate_token_pnl (Inl ClientError) ts = Inr (rows @ [total]) \<and>
            (\<forall>r\<in>set rows. \<exists>a. map_of (token_data ts) (Token r) = Some a \<and>
               BNB_Fees_USDC r = py_round (bnb_fees a) 2 \<and>
               (\<forall>f. bnb_fees a = Fin f \<longrightarrow>
                  (\<exists>g. BNB_Fees_USDC r = Fin g \<and> (1 / 200 < \<bar>f\<bar> \<longrightarrow> g \<noteq> 0))))"
    by blast
qed

theorem fallback_rate_witness:
  "scenario_trades \<noteq> [] \<and>
   main2_get_price (Inl ClientError) = Inr (Fin 1) \<and>
   (\<exists>rows total. main2_calculate_token_pnl (Inl ClientError) scenario_trades = Inr (rows @ [total]) \<and>
      (\<forall>r\<in>set rows. \<exists>a. map_of (token_data scenario_trades) (Token r) = Some a \<and>
         BNB_Fees_USDC r = py_round (bnb_fees a) 2 \<and>
         (\<forall>f. bnb_fees a = Fin f \<longrightarrow>
            (\<exists>g. BNB_Fees_USDC r = Fin g \<and> (1 / 200 < \<bar>f\<bar> \<longrightarrow> g \<noteq> 0)))))"
proof -
  have h: "scenario_trades \<noteq> []" by (simp add: scenario_trades_def)
  from fallback_rate [OF h] h show ?thesis by blast
qed

section \<open>The numeric normaliser\<close>

lemma fillna_zero_not_nan: "fillna_zero x \<noteq> NaN"
  by (simp add: fillna_zero_def)

lemma main2_normalize_not_nan: "float_or_zero (main2_normalize repr v) \<noteq> NaN"
  by (simp add: main2_normalize_def Let_def float_or_zero_def fillna_zero_not_nan)

text \<open>
  The normaliser of main2.py does what C5 says, on the five examples of the specification
  and in general: it is a total function and never returns NaN.
\<close>

lemma main2_normalize_examples:
  "float_or_zero (main2_normalize repr (PStr (CHR 0x27 # ''0.5''))) = Fin (1 / 2) \<and>
   float_or_zero (main2_normalize repr (PStr [])) = Fin 0 \<and>
   float_or_zero (main2_normalize repr (PStr ''1,234.5'')) = Fin (12345 / 10) \<and>
   float_or_zero (main2_normalize repr (PStr ''abc'')) = Fin 0 \<and>
   float_or_zero (main2_normalize repr PNone) = Fin 0 \<and>
   float_or_zero (main2_normalize repr (PFloat NaN)) = Fin 0"
  by code_simp

text \<open>
  C5 on main.py: the normaliser of main.py has no step that removes thousands separators
  and none that replaces NaN, and its \<open>replace\<close> knows the empty string only. So a cell
  with a thousands separator, a cell that is not a number, \<open>None\<close> and a blank cell all
  come out as NaN, where the claim says 1234.5 and 0.0.
\<close>

theorem main_normalize_nan:
  "float_or_zero (main_normalize repr (PStr ''1,234.5'')) = NaN \<and>
   float_or_zero (main_normalize repr (PStr ''abc'')) = NaN \<and>
   float_or_zero (main_normalize repr PNone) = NaN \<and>
   float_or_zero (main_normalize repr (PFloat NaN)) = NaN \<and>
   float_or_zero (main_normalize repr (PStr (CHR 0x27 # ''0.5''))) = Fin (1 / 2) \<and>
   float_or_zero (main_normalize repr (PStr [])) = Fin 0"
  by code_simp

lemma main_file_trades_nan:
  "main_get_trades_from_file unused_repr \<lparr>wall_clock = 50, tzinfo = None\<rparr> (Inr comma_sheet) =
     Inr [\<lparr>symbol = PStr ''BTCUSDC'', realizedPnl = NaN, commission = NaN,
           commissionAsset = PStr ''USDC''\<rparr>]"
  by code_simp

section \<open>The trades read from a file\<close>

text \<open>
  C8 as the claim states it fails: main2.py copies the Symbol cell without looking at it
  and lets an infinity through. A row with a blank Symbol cell and the text inf in the
  Fee cell gives a trade whose symbol is not a string and whose commission is infinite.
\<close>

theorem trade_invariant_counterexample:
  "main2_get_trades_from_file unused_repr \<lparr>wall_clock = 0, tzinfo = None\<rparr> ''Export Trade History.xlsx''
       (Inr odd_sheet) =
     [\<lparr>symbol = PFloat NaN, realizedPnl = Fin (3 / 2), commission = PInf,
       commissionAsset = PStr ''USDC''\<rparr>] \<and>
   \<not> trade_invariant
       \<lparr>symbol = PFloat NaN, realizedPnl = Fin (3 / 2), commission = PInf,
        commissionAsset = PStr ''USDC''\<rparr>"
  by code_simp

lemma main2_file_trades:
  "main2_get_trades_from_file repr start_datetime file_path rd =
     (if file_path \<noteq> [] \<and> (\<exists>df. rd = Inr df \<and> list_all (\<lambda>col. col \<in> set (columns df)) required_cols)
      then map (\<lambda>row.
             \<lparr>symbol = Symbol row,
              realizedPnl = float_or_zero (main2_normalize repr (Realized_Profit row)),
              commission = float_or_zero (main2_normalize repr (Fee row)),
              commissionAsset = (if ''Fee Coin'' \<in> set (columns (projr rd))
                                 then Fee_Coin row else PStr ''USDC'')\<rparr>)
             (records (projr rd))
      else [])"
  by (cases rd) (auto simp: main2_get_trades_from_file_def Let_def filter_empty_conv list_all_iff)

text \<open>
  C8, amended. Every trade that the file ingestion of main2.py returns has a commission
  and a realized PnL that are not NaN: each is the normalised cell, and the normaliser
  replaces NaN by 0. Its symbol is the Symbol cell of its row as read.
\<close>

theorem file_trades_not_nan:
  "\<forall>t\<in>set (main2_get_trades_from_file repr start_datetime file_path rd).
     commission t \<noteq> NaN \<and> realizedPnl t \<noteq> NaN \<and>
     (\<exists>df row. rd = Inr df \<and> row \<in> set (records df) \<and> symbol t = Symbol row \<and>
        commission t = float_or_zero (main2_normalize repr (Fee row)))"
proof
  fix t assume t: "t \<in> set (main2_get_trades_from_file repr start_datetime file_path rd)"
  then have ne: "main2_get_trades_from_file repr start_datetime file_path rd \<noteq> []" by auto
  then obtain df where df: "rd = Inr df"
    by (subst (asm) main2_file_trades) (auto split: if_splits)
  from t ne obtain row where row: "row \<in> set (records df)"
      "t = \<lparr>symbol = Symbol row,
            realizedPnl = float_or_zero (main2_normalize repr (Realized_Profit row)),
            commission = float_or_zero (main2_normalize repr (Fee row)),
            commissionAsset = (if ''Fee Coin'' \<in> set (columns df)
                               then Fee_Coin row else PStr ''USDC'')\<rparr>"
    by (subst (asm) (1 2) main2_file_trades) (auto simp: df split: if_splits)
  from row(2) have "commission t \<noteq> NaN" "realizedPnl t \<noteq> NaN"
    by (simp_all add: main2_normalize_not_nan)
  moreover from row(2) have "symbol t = Symbol row"
      "commission t = float_or_zero (main2_normalize repr (Fee row))"
    by simp_all
  ultimately show "commission t \<noteq> NaN \<and> realizedPnl t \<noteq> NaN \<and>
     (\<exists>df row. rd = Inr df \<and> row \<in> set (records df) \<and> symbol t = Symbol row \<and>
        commission t = float_or_zero (main2_normalize repr (Fee row)))"
    using df row(1) by blast
qed

theorem file_trades_not_nan_witness:
  "main2_get_trades_from_file unused_repr \<lparr>wall_clock = 0, tzinfo = None\<rparr> ''Export Trade History.xlsx''
       (Inr comma_sheet) =
     [\<lparr>symbol = PStr ''BTCUSDC'', realizedPnl = Fin 0, commission = Fin (12345 / 10),
       commissionAsset = PStr ''USDC''\<rparr>] \<and>
   commission \<lparr>symbol = PStr ''BTCUSDC'', realizedPnl = Fin 0, commission = Fin (12345 / 10),
       commissionAsset = PStr ''USDC''\<rparr> \<noteq> NaN"
proof -
  have e: "main2_get_trades_from_file unused_repr \<lparr>wall_clock = 0, tzinfo = None\<rparr>
       ''Export Trade History.xlsx'' (Inr comma_sheet) =
     [\<lparr>symbol = PStr ''BTCUSDC'', realizedPnl = Fin 0, commission = Fin (12345 / 10),
       commissionAsset = PStr ''USDC''\<rparr>]"
    by code_simp
  from file_trades_not_nan [of unused_repr "\<lparr>wall_clock = 0, tzinfo = None\<rparr>"
      "''Export Trade History.xlsx''" "Inr comma_sheet"]
  show ?thesis unfolding e by simp
qed

section \<open>The start date of the file ingestion\<close>

text \<open>
  C10. The trade list that \<open>get_trades_from_file\<close> of main2.py returns is the same for any
  two start dates; and when a file was found and read and has the required columns, every
  row of it contributes one trade, in order.
\<close>

theorem start_date_ignored:
  "main2_get_trades_from_file repr start1 file_path rd =
     main2_get_trades_from_file repr start2 file_path rd \<and>
   (file_path \<noteq> [] \<and> rd = Inr df \<and> list_all (\<lambda>col. col \<in> set (columns df)) required_cols \<longrightarrow>
      map symbol (main2_get_trades_from_file repr start1 file_path rd) = map Symbol (records df))"
  by (auto simp: main2_file_trades comp_def)

theorem start_date_ignored_witness:
  "main2_get_trades_from_file unused_repr \<lparr>wall_clock = 50, tzinfo = None\<rparr> ''Export Trade History.xlsx''
       (Inr comma_sheet) =
   main2_get_trades_from_file unused_repr \<lparr>wall_clock = 200, tzinfo = Some 7\<rparr> ''Export Trade History.xlsx''
       (Inr comma_sheet) \<and>
   map symbol (main2_get_trades_from_file unused_repr \<lparr>wall_clock = 50, tzinfo = None\<rparr>
       ''Export Trade History.xlsx'' (Inr comma_sheet)) = [PStr ''BTCUSDC'']"
proof -
  have c: "list_all (\<lambda>col. col \<in> set (columns comma_sheet)) required_cols"
    by code_simp
  have r: "map Symbol (records comma_sheet) = [PStr ''BTCUSDC'']"
    by (simp add: comma_sheet_def)
  note th = start_date_ignored [of unused_repr "\<lparr>wall_clock = 50, tzinfo = None\<rparr>"
      "''Export Trade History.xlsx''" "Inr comma_sheet" "\<lparr>wall_clock = 200, tzinfo = Some 7\<rparr>"
      comma_sheet]
  have 1: "main2_get_trades_from_file unused_repr \<lparr>wall_clock = 50, tzinfo = None\<rparr>
       ''Export Trade History.xlsx'' (Inr comma_sheet) =
     main2_get_trades_from_file unused_repr \<lparr>wall_clock = 200, tzinfo = Some 7\<rparr>
       ''Export Trade History.xlsx'' (Inr comma_sheet)"
    by (rule th [THEN conjunct1])
  have 2: "map symbol (main2_get_trades_from_file unused_repr \<lparr>wall_clock = 50, tzinfo = None\<rparr>
       ''Export Trade History.xlsx'' (Inr comma_sheet)) = map Symbol (records comma_sheet)"
    by (rule th [THEN conjunct2, rule_format]) (simp add: c)
  from 1 2 r show ?thesis by (simp only: simp_thms)
qed

text \<open>main.py, by contrast, filters by the start date: the row dated 100 goes when the start is 200.\<close>

lemma main_start_date_filters:
  "main_get_trades_from_file unused_repr \<lparr>wall_clock = 200, tzinfo = None\<rparr> (Inr comma_sheet) = Inr [] \<and>
   main_get_trades_from_file unused_repr \<lparr>wall_clock = 50, tzinfo = None\<rparr> (Inr comma_sheet) \<noteq> Inr []"
  by code_simp

end
